theory Spec2Isabelle
  imports Main
begin

section \<open>FASTQ staging and merging (bcbio/pipeline/fastq.py)\<close>

text \<open>
  The module decides, per input file, which transformation to apply (BAM to FASTQ
  conversion, quality grooming, gzip normalisation) and merges per-sample files. Its
  effects are on the file system and on external programs, so the model threads an
  explicit state through every function: the files on disk with their bytes, the
  directories, and a trace of every effect performed. Every raise and failed assertion is a
  value of \<open>error\<close>.
\<close>

subsection \<open>Paths, file system state, errors\<close>

type_synonym path = string
type_synonym bytes = string

text \<open>The external programs started through \<open>do.run\<close>, by the command line of the source.\<close>

datatype cmd =
    GzipC path              \<comment> \<open>\<open>gzip -c {in_file} > {tx_gzipped_file}\<close>\<close>
  | Bunzip2Gzip path        \<comment> \<open>\<open>bunzip2 -c {in_file} | gzip > {tx_gzipped_file}\<close>\<close>
  | Cat "path list"         \<comment> \<open>\<open>cat {files_str} > {file_txt_out}\<close>\<close>

datatype event =
    Ran cmd path            \<comment> \<open>\<open>do.run\<close> of a command inside \<open>file_transaction\<close> of the path\<close>
  | Makedir path            \<comment> \<open>\<open>utils.safe_makedir\<close>\<close>
  | Moved path path         \<comment> \<open>\<open>shutil.move\<close>\<close>
  | Delegate string "path list"  \<comment> \<open>a collaborator outside this module was called\<close>

datatype error =
    NoFilesInInput          \<comment> \<open>AssertionError: Did not find `files` in input; nothing to process\<close>
  | DoesNotExist path       \<comment> \<open>AssertionError: %s does not exist.\<close>
  | NotAllFastq "path list" \<comment> \<open>ValueError: Not all of the files to merge are fastq files: %s\<close>
  | NotAllExist "path list" \<comment> \<open>AssertionError: Not all of the files to merge exist: %s\<close>
  | IndexError              \<comment> \<open>list index out of range\<close>
  | CommandFailed cmd       \<comment> \<open>\<open>do.run\<close>: the command exited with an error\<close>
  | MoveFailed path         \<comment> \<open>\<open>shutil.move\<close> raised, about this path\<close>
  | CollaboratorError string

text \<open>
  The file system holds the regular files with their bytes and the directories that exist
  (beside the root and the current directory); paths are compared as they are written.
\<close>

record state =
  disk :: "path \<rightharpoonup> bytes"
  dirs :: "path list"
  trace :: "event list"

type_synonym 'a res = "(error + 'a) \<times> state"

text \<open>
  The lane description \<open>data\<close>, by the accessors the module reads it through. Only the
  key \<open>files\<close> is tested for presence by the source; the other entries are read
  unconditionally.
\<close>

record data =
  files :: "path list option"     \<comment> \<open>\<open>data["files"]\<close>, \<open>None\<close> when the key is absent\<close>
  reference :: "string list"      \<comment> \<open>\<open>data['reference'].keys()\<close>\<close>
  aligner :: "string option"      \<comment> \<open>\<open>data["config"]["algorithm"].get("aligner")\<close>\<close>
  work_dir :: path                \<comment> \<open>\<open>dd.get_work_dir(data)\<close>\<close>
  trim_reads :: bool              \<comment> \<open>truth value of \<open>dd.get_trim_reads(data)\<close>\<close>
  quality_format :: string        \<comment> \<open>\<open>dd.get_quality_format(data)\<close>\<close>

datatype compression = Uncompressed | Gzip | Bzip2

text \<open>
  The collaborators imported from other modules, taken as parameters: the module's
  functions are modelled for every choice of them.
  Modelled from the spec: \<open>utils.is_gzipped\<close> and \<open>utils.is_bzipped\<close> are not part of the
  module; the data model gives every input file one compression state (none, gzip or
  bzip2), so both predicates read the one field \<open>compression\<close>.
\<close>

record env =
  is_fastq :: "path \<Rightarrow> bool"                 \<comment> \<open>\<open>fastq.is_fastq\<close>\<close>
  is_remote :: "path \<Rightarrow> bool"                \<comment> \<open>\<open>objectstore.is_remote\<close>\<close>
  compression :: "path \<Rightarrow> compression"
  splitext_plus :: "path \<Rightarrow> path \<times> path"     \<comment> \<open>\<open>utils.splitext_plus\<close>\<close>
  support_bam :: "string list"               \<comment> \<open>\<open>alignment.metadata.get("support_bam", [])\<close>\<close>
  prep_fastq_inputs :: "path list \<Rightarrow> data \<Rightarrow> state \<Rightarrow> (path option list) res"
                                             \<comment> \<open>\<open>alignprep.prep_fastq_inputs\<close>\<close>
  groom :: "path \<Rightarrow> data \<Rightarrow> path \<Rightarrow> state \<Rightarrow> (path option) res"
                                             \<comment> \<open>\<open>fastq.groom(fname, data, out_dir=out_dir)\<close>\<close>
  gzip :: "bytes \<Rightarrow> bytes"                    \<comment> \<open>what \<open>gzip\<close> writes for an input\<close>
  bunzip2 :: "bytes \<Rightarrow> bytes option"          \<comment> \<open>what \<open>bunzip2\<close> writes, \<open>None\<close> on bad input\<close>

definition is_gzipped :: "env \<Rightarrow> path \<Rightarrow> bool" where
  "is_gzipped e p = (compression e p = Gzip)"

definition is_bzipped :: "env \<Rightarrow> path \<Rightarrow> bool" where
  "is_bzipped e p = (compression e p = Bzip2)"

subsection \<open>Python's string and path functions (posixpath)\<close>

definition endswith :: "string \<Rightarrow> string \<Rightarrow> bool" where
  "endswith s suf = (length suf \<le> length s \<and> drop (length s - length suf) s = suf)"

definition startswith :: "string \<Rightarrow> string \<Rightarrow> bool" where
  "startswith s pre = (take (length pre) s = pre)"

text \<open>\<open>os.path.basename\<close>: what follows the last slash.\<close>

definition basename :: "path \<Rightarrow> path" where
  "basename p = rev (takeWhile (\<lambda>c. c \<noteq> CHR ''/'') (rev p))"

text \<open>The directory part, up to and with the last slash (\<open>p[:sepIndex + 1]\<close>).\<close>

definition dirpart :: "path \<Rightarrow> path" where
  "dirpart p = rev (dropWhile (\<lambda>c. c \<noteq> CHR ''/'') (rev p))"

text \<open>
  \<open>os.path.splitext\<close>: split at the last dot of the last component, unless only dots
  come before it there.
\<close>

definition splitext :: "path \<Rightarrow> path \<times> path" where
  "splitext p =
     (let name = basename p;
          ext = rev (takeWhile (\<lambda>c. c \<noteq> CHR ''.'') (rev name));
          stem = take (length name - length ext - 1) name
      in if CHR ''.'' \<in> set name \<and> \<not> list_all (\<lambda>c. c = CHR ''.'') stem
         then (dirpart p @ stem, CHR ''.'' # ext)
         else (p, []))"

text \<open>\<open>p.rstrip('/')\<close>.\<close>

definition rstrip_slash :: "path \<Rightarrow> path" where
  "rstrip_slash p = rev (dropWhile (\<lambda>c. c = CHR ''/'') (rev p))"

text \<open>
  \<open>os.path.dirname\<close>: what comes before the last component, without its trailing slashes
  unless it is made of slashes only.
\<close>

definition dirname :: "path \<Rightarrow> path" where
  "dirname p =
     (let head = dirpart p
      in if head \<noteq> [] \<and> \<not> list_all (\<lambda>c. c = CHR ''/'') head then rstrip_slash head else head)"

text \<open>\<open>os.path.join\<close> of two components.\<close>

definition join :: "path \<Rightarrow> path \<Rightarrow> path" where
  "join a b =
     (if startswith b ''/'' then b
      else if a = [] \<or> endswith a ''/'' then a @ b
      else a @ ''/'' @ b)"

subsection \<open>Effects\<close>

text \<open>
  Modelled from the spec: \<open>utils.file_exists\<close> is not part of the module; the capability
  inspector's "exists-on-disk".
\<close>

definition file_exists :: "state \<Rightarrow> path \<Rightarrow> bool" where
  "file_exists st p = (disk st p \<noteq> None)"

text \<open>\<open>os.path.isdir\<close>: the root, or a directory of the state, whatever the trailing slashes.\<close>

definition is_dir :: "state \<Rightarrow> path \<Rightarrow> bool" where
  "is_dir st p =
     (p \<noteq> [] \<and> (rstrip_slash p = [] \<or> rstrip_slash p \<in> set (map rstrip_slash (dirs st))))"

text \<open>\<open>os.path.exists\<close>: a regular file or a directory.\<close>

definition path_exists :: "state \<Rightarrow> path \<Rightarrow> bool" where
  "path_exists st p = (disk st p \<noteq> None \<or> is_dir st p)"

text \<open>\<open>utils.safe_makedir\<close>: makes the directory when it is not there, and returns its path.\<close>

definition safe_makedir :: "path \<Rightarrow> state \<Rightarrow> path \<times> state" where
  "safe_makedir p st =
     (p, st\<lparr>dirs := (if is_dir st p then dirs st else dirs st @ [p]),
           trace := trace st @ [Makedir p]\<rparr>)"

text \<open>
  What a command writes to its redirected standard output, \<open>None\<close> when it exits with an
  error: each of the three programs fails on an input file that is not there.
\<close>

fun exec_cmd :: "env \<Rightarrow> (path \<rightharpoonup> bytes) \<Rightarrow> cmd \<Rightarrow> bytes option" where
  "exec_cmd e d (GzipC f) = map_option (gzip e) (d f)"
| "exec_cmd e d (Bunzip2Gzip f) =
     (case d f of None \<Rightarrow> None
      | Some c \<Rightarrow> map_option (gzip e) (bunzip2 e c))"
| "exec_cmd e d (Cat fs) = map_option concat (those (map d fs))"

text \<open>
  Modelled from the spec: \<open>file_transaction\<close> and \<open>do.run\<close> are not part of the module.
  \<open>with file_transaction(out) as tx: do.run(cmd > tx)\<close>: the command writes a temporary
  file, which is renamed to \<open>out\<close> when the command succeeds and discarded when it fails;
  the transaction provides the place the file is committed to.
\<close>

definition run_tx :: "env \<Rightarrow> cmd \<Rightarrow> path \<Rightarrow> state \<Rightarrow> unit res" where
  "run_tx e c out st =
     (case exec_cmd e (disk st) c of
        None \<Rightarrow> (Inl (CommandFailed c), st\<lparr>trace := trace st @ [Ran c out]\<rparr>)
      | Some b \<Rightarrow> (Inr (), st\<lparr>disk := (disk st)(out \<mapsto> b), trace := trace st @ [Ran c out]\<rparr>))"

text \<open>
  \<open>shutil.move(src, dst)\<close> of a regular file. When \<open>dst\<close> is a directory the file goes
  into it under its own name, and the call raises when that path exists already. The rename
  raises when the source is not there and when the directory of the destination is not
  there; a file at the destination is replaced.
\<close>

definition move :: "path \<Rightarrow> path \<Rightarrow> state \<Rightarrow> unit res" where
  "move src dst st =
     (let real_dst = (if is_dir st dst then join dst (basename (rstrip_slash src)) else dst)
      in if is_dir st dst \<and> path_exists st real_dst then (Inl (MoveFailed real_dst), st)
         else
           (case disk st src of
              None \<Rightarrow> (Inl (MoveFailed src), st)
            | Some b \<Rightarrow>
                if dirname real_dst \<noteq> [] \<and> \<not> is_dir st (dirname real_dst)
                then (Inl (MoveFailed real_dst), st)
                else (Inr (), st\<lparr>disk := (disk st)(src := None, real_dst \<mapsto> b),
                                   trace := trace st @ [Moved src real_dst]\<rparr>)))"

text \<open>Python's truth value of an optional string: \<open>None\<close> and the empty string are false.\<close>

fun truthy :: "string option \<Rightarrow> bool" where
  "truthy None = False"
| "truthy (Some s) = (s \<noteq> [])"

subsection \<open>The transforms\<close>

definition bzip_gzip :: "env \<Rightarrow> path \<Rightarrow> path option \<Rightarrow> state \<Rightarrow> path res" where
  "bzip_gzip e in_file out_dir st =
     (if \<not> is_bzipped e in_file then (Inr in_file, st)
      else
        let base = fst (splitext in_file);
            gzipped_file = (if truthy out_dir then join (the out_dir) (basename base @ ''.gz'')
                            else base @ ''.gz'')
        in if is_fastq e base \<and> \<not> is_remote e in_file then
             if file_exists st gzipped_file then (Inr gzipped_file, st)
             else (case run_tx e (Bunzip2Gzip in_file) gzipped_file st of
                     (Inl err, st') \<Rightarrow> (Inl err, st')
                   | (Inr _, st') \<Rightarrow> (Inr gzipped_file, st'))
           else (Inr in_file, st))"

definition gzip_fastq :: "env \<Rightarrow> path \<Rightarrow> path option \<Rightarrow> state \<Rightarrow> path res" where
  "gzip_fastq e in_file out_dir st =
     (if is_fastq e in_file \<and> \<not> is_remote e in_file then
        if is_bzipped e in_file then bzip_gzip e in_file out_dir st
        else if \<not> is_gzipped e in_file then
          let gzipped_file = (if truthy out_dir then join (the out_dir) (basename in_file @ ''.gz'')
                              else in_file @ ''.gz'')
          in if file_exists st gzipped_file then (Inr gzipped_file, st)
             else (case run_tx e (GzipC in_file) gzipped_file st of
                     (Inl err, st') \<Rightarrow> (Inl err, st')
                   | (Inr _, st') \<Rightarrow> (Inr gzipped_file, st'))
        else (Inr in_file, st)
      else (Inr in_file, st))"

text \<open>The comprehension \<open>[_gzip_fastq(x, out_dir) for x in files]\<close>, left to right.\<close>

fun gzip_all :: "env \<Rightarrow> path option \<Rightarrow> path list \<Rightarrow> state \<Rightarrow> (path list) res" where
  "gzip_all e out_dir [] st = (Inr [], st)"
| "gzip_all e out_dir (x # xs) st =
     (case gzip_fastq e x out_dir st of
        (Inl err, st') \<Rightarrow> (Inl err, st')
      | (Inr y, st') \<Rightarrow>
          (case gzip_all e out_dir xs st' of
             (Inl err, st'') \<Rightarrow> (Inl err, st'')
           | (Inr ys, st'') \<Rightarrow> (Inr (y # ys), st'')))"

subsection \<open>What gzip normalisation returns, by path\<close>

text \<open>
  The path \<open>_gzip_fastq(in_file)\<close> returns when it returns, read off its branches for
  the call without an output directory: the file itself, or the \<open>.gz\<close> path beside it.
\<close>

definition normalised_path :: "env \<Rightarrow> path \<Rightarrow> path" where
  "normalised_path e p =
     (if is_fastq e p \<and> \<not> is_remote e p then
        if is_bzipped e p then
          (if is_fastq e (fst (splitext p)) then fst (splitext p) @ ''.gz'' else p)
        else if \<not> is_gzipped e p then p @ ''.gz''
        else p
      else p)"

text \<open>
  The bytes of that file once normalisation has run from the state \<open>st\<close>: those of the file
  itself; or those already on disk at the \<open>.gz\<close> path, which is then reused as it is; or
  else what the compression writes there.
\<close>

definition normalised_bytes :: "env \<Rightarrow> state \<Rightarrow> path \<Rightarrow> bytes option" where
  "normalised_bytes e st p =
     (if normalised_path e p = p then disk st p
      else
        (case disk st (normalised_path e p) of
           Some b \<Rightarrow> Some b
         | None \<Rightarrow>
             (case disk st p of
                None \<Rightarrow> None
              | Some c \<Rightarrow>
                  if is_bzipped e p then map_option (gzip e) (bunzip2 e c)
                  else Some (gzip e c))))"

subsection \<open>Staging\<close>

definition pipeline_needs_fastq :: "env \<Rightarrow> data \<Rightarrow> bool" where
  "pipeline_needs_fastq e d =
     (let supports_bam = (case aligner d of None \<Rightarrow> False
                                          | Some a \<Rightarrow> a \<in> set (support_bam e))
      in truthy (aligner d) \<and> \<not> supports_bam)"

definition convert_bam_to_fastq :: "env \<Rightarrow> path \<Rightarrow> data \<Rightarrow> state \<Rightarrow> (path option list) res" where
  "convert_bam_to_fastq e in_file d st = prep_fastq_inputs e [in_file] d st"

text \<open>
  The loop \<open>for fname in data["files"]\<close> with its variable \<open>ready_files\<close>: the two BAM
  branches assign it, the other three append to it.
\<close>

fun get_fastq_files_loop ::
  "env \<Rightarrow> data \<Rightarrow> path list \<Rightarrow> path option list \<Rightarrow> state \<Rightarrow> (path option list) res" where
  "get_fastq_files_loop e d [] ready_files st = (Inr ready_files, st)"
| "get_fastq_files_loop e d (fname # rest) ready_files st =
     (if endswith fname ''.bam'' then
        if pipeline_needs_fastq e d then
          (case convert_bam_to_fastq e fname d st of
             (Inl err, st') \<Rightarrow> (Inl err, st')
           | (Inr converted, st') \<Rightarrow> get_fastq_files_loop e d rest converted st')
        else get_fastq_files_loop e d rest [Some fname] st
      else if is_remote e fname then
        get_fastq_files_loop e d rest (ready_files @ [Some fname]) st
      else if \<not> trim_reads d \<and> quality_format d \<noteq> ''standard'' then
        (case safe_makedir (join (work_dir d) ''fastq_convert'') st of
           (out_dir, st1) \<Rightarrow>
             (case groom e fname d out_dir st1 of
                (Inl err, st') \<Rightarrow> (Inl err, st')
              | (Inr groomed, st') \<Rightarrow>
                  get_fastq_files_loop e d rest (ready_files @ [groomed]) st'))
      else get_fastq_files_loop e d rest (ready_files @ [Some fname]) st)"

text \<open>\<open>[x for x in ready_files if x is not None]\<close>.\<close>

definition drop_none :: "'a option list \<Rightarrow> 'a list" where
  "drop_none xs = map the (filter (\<lambda>x. x \<noteq> None) xs)"

text \<open>
  The closing loop \<open>for in_file in ready_files\<close>: the first file that is neither remote nor
  on disk fails the assertion.
\<close>

fun first_missing :: "env \<Rightarrow> path list \<Rightarrow> state \<Rightarrow> path option" where
  "first_missing e [] st = None"
| "first_missing e (f # fs) st =
     (if \<not> is_remote e f \<and> \<not> path_exists st f then Some f else first_missing e fs st)"

definition get_fastq_files :: "env \<Rightarrow> data \<Rightarrow> state \<Rightarrow> (path list) res" where
  "get_fastq_files e d st =
     (case files d of
        None \<Rightarrow> (Inl NoFilesInInput, st)
      | Some fnames \<Rightarrow>
          let should_gzip = (''bowtie'' \<notin> set (reference d)) in
          (case get_fastq_files_loop e d fnames [] st of
             (Inl err, st1) \<Rightarrow> (Inl err, st1)
           | (Inr ready0, st1) \<Rightarrow>
               (case (if should_gzip then
                        (case safe_makedir (join (work_dir d) ''fastq'') st1 of
                           (out_dir, st2) \<Rightarrow> gzip_all e (Some out_dir) (drop_none ready0) st2)
                      else (Inr (drop_none ready0), st1)) of
                  (Inl err, st3) \<Rightarrow> (Inl err, st3)
                | (Inr ready_files, st3) \<Rightarrow>
                    (case first_missing e ready_files st3 of
                       Some f \<Rightarrow> (Inl (DoesNotExist f), st3)
                     | None \<Rightarrow> (Inr ready_files, st3)))))"

subsection \<open>Merging\<close>

definition merge_list_fastqs :: "env \<Rightarrow> path list \<Rightarrow> path \<Rightarrow> state \<Rightarrow> path res" where
  "merge_list_fastqs e fnames out_file st =
     (if \<not> list_all (is_fastq e) fnames then (Inl (NotAllFastq fnames), st)
      else if \<not> list_all (file_exists st) fnames then (Inl (NotAllExist fnames), st)
      else if \<not> file_exists st out_file then
        (case gzip_all e None fnames st of
           (Inl err, st1) \<Rightarrow> (Inl err, st1)
         | (Inr gz, st1) \<Rightarrow>
             if length gz = 1 then
               (case move (hd gz) out_file st1 of
                  (Inl err, st2) \<Rightarrow> (Inl err, st2)
                | (Inr _, st2) \<Rightarrow> (Inr out_file, st2))
             else
               (case run_tx e (Cat gz) out_file st1 of
                  (Inl err, st2) \<Rightarrow> (Inl err, st2)
                | (Inr _, st2) \<Rightarrow> (Inr out_file, st2)))
      else (Inr out_file, st))"

text \<open>Python's \<open>xs[i]\<close> for an index that is not negative.\<close>

definition index :: "'a list \<Rightarrow> nat \<Rightarrow> 'a option" where
  "index xs i = (if i < length xs then Some (xs ! i) else None)"

text \<open>\<open>merge\<close> returns a list of two paths in paired mode and one path otherwise.\<close>

datatype merged = OnePath path | PathList "path list"

definition merge :: "env \<Rightarrow> path list list \<Rightarrow> path \<Rightarrow> state \<Rightarrow> merged res" where
  "merge e fsets out_file st =
     (case those (map (\<lambda>fastq_file. index fastq_file 0) fsets) of
        None \<Rightarrow> (Inl IndexError, st)
      | Some pair1 \<Rightarrow>
          (case index fsets 0 of
             None \<Rightarrow> (Inl IndexError, st)
           | Some first \<Rightarrow>
               if length first > 1 then
                 let pth = splitext_plus e out_file;
                     pair1_out_file = fst pth @ ''_R1'' @ snd pth
                 in (case those (map (\<lambda>fastq_file. index fastq_file 1) fsets) of
                       None \<Rightarrow> (Inl IndexError, st)
                     | Some pair2 \<Rightarrow>
                         let pair2_out_file = fst pth @ ''_R2'' @ snd pth
                         in (case merge_list_fastqs e pair1 pair1_out_file st of
                               (Inl err, st1) \<Rightarrow> (Inl err, st1)
                             | (Inr _, st1) \<Rightarrow>
                                 (case merge_list_fastqs e pair2 pair2_out_file st1 of
                                    (Inl err, st2) \<Rightarrow> (Inl err, st2)
                                  | (Inr _, st2) \<Rightarrow>
                                      (Inr (PathList [pair1_out_file, pair2_out_file]), st2))))
               else
                 (case merge_list_fastqs e pair1 out_file st of
                    (Inl err, st1) \<Rightarrow> (Inl err, st1)
                  | (Inr r, st1) \<Rightarrow> (Inr (OnePath r), st1))))"

subsection \<open>A concrete environment\<close>

text \<open>
  One choice of the collaborators, by file name, for running the model on concrete
  inputs: read files end in \<open>.txt\<close>, \<open>.fq\<close> or \<open>.fastq\<close>, optionally followed by a
  compression suffix; remote files start with \<open>s3://\<close>.
\<close>

definition demo_is_fastq :: "path \<Rightarrow> bool" where
  "demo_is_fastq p =
     (let first_ext = snd (splitext p);
          second_ext = snd (splitext (fst (splitext p)))
      in first_ext \<in> set [''.txt'', ''.fq'', ''.fastq''] \<or>
         (second_ext \<in> set [''.txt'', ''.fq'', ''.fastq''] \<and>
          first_ext \<in> set [''.gzip'', ''.gz'', ''.bz2'', ''.bzip2'']))"

definition demo_compression :: "path \<Rightarrow> compression" where
  "demo_compression p =
     (if endswith p ''.gz'' \<or> endswith p ''gzip'' then Gzip
      else if endswith p ''.bz2'' \<or> endswith p ''bzip2'' then Bzip2
      else Uncompressed)"

definition demo_splitext_plus :: "path \<Rightarrow> path \<times> path" where
  "demo_splitext_plus p =
     (if snd (splitext p) \<in> set [''.gz'', ''.bz2'', ''.zip'']
      then (fst (splitext (fst (splitext p))),
            snd (splitext (fst (splitext p))) @ snd (splitext p))
      else splitext p)"

definition demo_prep_fastq_inputs :: "path list \<Rightarrow> data \<Rightarrow> state \<Rightarrow> (path option list) res" where
  "demo_prep_fastq_inputs fs d st =
     (let o1 = join (work_dir d) ''reads-1.fq.gz'';
          o2 = join (work_dir d) ''reads-2.fq.gz''
      in (Inr [Some o1, Some o2],
          st\<lparr>disk := (disk st)(o1 \<mapsto> ''mate1'', o2 \<mapsto> ''mate2''),
             dirs := dirs st @ [work_dir d],
             trace := trace st @ [Delegate ''prep_fastq_inputs'' fs]\<rparr>))"

definition demo_groom :: "path \<Rightarrow> data \<Rightarrow> path \<Rightarrow> state \<Rightarrow> (path option) res" where
  "demo_groom f d out_dir st =
     (let out = join out_dir (basename f)
      in (Inr (Some out),
          st\<lparr>disk := (disk st)(out \<mapsto> ''groomed''),
             trace := trace st @ [Delegate ''groom'' [f]]\<rparr>))"

definition demo_env :: env where
  "demo_env =
     \<lparr>is_fastq = demo_is_fastq,
      is_remote = (\<lambda>p. startswith p ''s3://''),
      compression = demo_compression,
      splitext_plus = demo_splitext_plus,
      support_bam = [''bwa'', ''novoalign''],
      prep_fastq_inputs = demo_prep_fastq_inputs,
      groom = demo_groom,
      gzip = (\<lambda>b. ''gz('' @ b @ '')''),
      bunzip2 = (\<lambda>b. Some (''plain('' @ b @ '')''))\<rparr>"

definition demo_data :: "path list \<Rightarrow> string \<Rightarrow> data" where
  "demo_data fs al =
     \<lparr>files = Some fs, reference = [''fasta'', al], aligner = Some al,
      work_dir = ''/work'', trim_reads = False, quality_format = ''standard''\<rparr>"

text \<open>A state from its files: the directories are those the files are in.\<close>

definition demo_state :: "(path \<times> bytes) list \<Rightarrow> state" where
  "demo_state fs =
     \<lparr>disk = map_of fs,
      dirs = remdups (filter (\<lambda>d. d \<noteq> []) (map (\<lambda>f. dirname (fst f)) fs)),
      trace = []\<rparr>"

section \<open>Properties\<close>

lemmas path_defs = endswith_def startswith_def basename_def dirpart_def splitext_def join_def
  rstrip_slash_def dirname_def

lemmas demo_defs = demo_env_def demo_is_fastq_def demo_compression_def demo_splitext_plus_def
  demo_prep_fastq_inputs_def demo_groom_def demo_data_def demo_state_def
  is_gzipped_def is_bzipped_def file_exists_def path_exists_def is_dir_def

subsection \<open>Gzip normalisation\<close>

text \<open>
  Claim C9. For every input file that is already gzip-compressed, and for every remote
  file, \<open>_gzip_fastq\<close> is a true no-op: the returned path is the input path, no command is
  run and the disk is as before, whatever the output directory.
\<close>

theorem C9_gzip_fastq_noop:
  "is_gzipped e f \<or> is_remote e f \<Longrightarrow> gzip_fastq e f out_dir st = (Inr f, st)"
  by (auto simp: gzip_fastq_def is_gzipped_def is_bzipped_def)

theorem C9_gzip_fastq_noop_witness:
  "is_gzipped demo_env ''/d/x.fq.gz'' \<and> is_remote demo_env ''s3://b/y.fastq'' \<and>
   gzip_fastq demo_env ''/d/x.fq.gz'' (Some ''/work/fastq'') (demo_state [(''/d/x.fq.gz'', ''X'')])
     = (Inr ''/d/x.fq.gz'', demo_state [(''/d/x.fq.gz'', ''X'')]) \<and>
   gzip_fastq demo_env ''s3://b/y.fastq'' None (demo_state []) = (Inr ''s3://b/y.fastq'', demo_state [])"
proof -
  have g: "is_gzipped demo_env ''/d/x.fq.gz''"
    by (simp add: demo_defs path_defs)
  have r: "is_remote demo_env ''s3://b/y.fastq''"
    by (simp add: demo_defs path_defs)
  show ?thesis
    using g r C9_gzip_fastq_noop [of demo_env "''/d/x.fq.gz''"]
      C9_gzip_fastq_noop [of demo_env "''s3://b/y.fastq''"]
    by simp
qed

subsection \<open>Merging a list of files\<close>

text \<open>
  Claim C7. \<open>_merge_list_fastqs\<close> fails before producing any output whenever some input
  file does not satisfy the read-format predicate (a \<open>ValueError\<close> whose message carries the
  list of inputs, the bad file among them) or some input file does not exist (a failed
  assertion whose message carries the same list). The state is the one of the call: nothing
  was run or written. The format check comes first, so a missing file next to a file of the
  wrong format is reported as the \<open>ValueError\<close>.
\<close>

theorem C7_merge_rejects_bad_input:
  assumes "f \<in> set fnames"
  shows "(\<not> is_fastq e f \<longrightarrow>
            merge_list_fastqs e fnames out_file st = (Inl (NotAllFastq fnames), st)) \<and>
         (list_all (is_fastq e) fnames \<and> \<not> file_exists st f \<longrightarrow>
            merge_list_fastqs e fnames out_file st = (Inl (NotAllExist fnames), st)) \<and>
         (\<not> is_fastq e f \<or> \<not> file_exists st f \<longrightarrow>
            (\<exists>err. merge_list_fastqs e fnames out_file st = (Inl err, st) \<and>
                   (err = NotAllFastq fnames \<or> err = NotAllExist fnames)))"
  using assms by (auto simp: merge_list_fastqs_def list_all_iff)

theorem C7_merge_rejects_bad_input_witness:
  "''b.bam'' \<in> set [''a.fq'', ''b.bam''] \<and> \<not> is_fastq demo_env ''b.bam'' \<and>
   merge_list_fastqs demo_env [''a.fq'', ''b.bam''] ''o.fq'' (demo_state [(''a.fq'', ''A'')])
     = (Inl (NotAllFastq [''a.fq'', ''b.bam'']), demo_state [(''a.fq'', ''A'')]) \<and>
   ''c.fq'' \<in> set [''a.fq'', ''c.fq''] \<and> list_all (is_fastq demo_env) [''a.fq'', ''c.fq''] \<and>
   \<not> file_exists (demo_state [(''a.fq'', ''A'')]) ''c.fq'' \<and>
   merge_list_fastqs demo_env [''a.fq'', ''c.fq''] ''o.fq'' (demo_state [(''a.fq'', ''A'')])
     = (Inl (NotAllExist [''a.fq'', ''c.fq'']), demo_state [(''a.fq'', ''A'')])"
proof -
  have m1: "''b.bam'' \<in> set [''a.fq'', ''b.bam'']" and m2: "''c.fq'' \<in> set [''a.fq'', ''c.fq'']"
    by simp_all
  have nf: "\<not> is_fastq demo_env ''b.bam''"
    by (simp add: demo_defs path_defs)
  have af: "list_all (is_fastq demo_env) [''a.fq'', ''c.fq'']"
    by (simp add: demo_defs path_defs)
  have ne: "\<not> file_exists (demo_state [(''a.fq'', ''A'')]) ''c.fq''"
    by (simp add: demo_defs)
  show ?thesis
    using nf af ne
      C7_merge_rejects_bad_input [OF m1, where e = demo_env and out_file = "''o.fq''"
        and st = "demo_state [(''a.fq'', ''A'')]"]
      C7_merge_rejects_bad_input [OF m2, where e = demo_env and out_file = "''o.fq''"
        and st = "demo_state [(''a.fq'', ''A'')]"]
    by simp
qed

text \<open>
  Claim C3, as the code has it. The two input checks come before the look at the output
  path. A call whose inputs all satisfy the read-format predicate and all exist, and whose
  output file exists, returns the output path and leaves the state as it was: nothing is
  compressed, moved or concatenated.
\<close>

theorem C3_merge_cached:
  "list_all (is_fastq e) fnames \<Longrightarrow> list_all (file_exists st) fnames \<Longrightarrow>
   file_exists st out_file \<Longrightarrow>
   merge_list_fastqs e fnames out_file st = (Inr out_file, st)"
  by (simp add: merge_list_fastqs_def)

theorem C3_merge_cached_witness:
  "list_all (is_fastq demo_env) [''a.fq.gz'', ''b.fq.gz''] \<and>
   list_all (file_exists (demo_state [(''a.fq.gz'', ''A''), (''b.fq.gz'', ''B''), (''o.fq.gz'', ''O'')]))
     [''a.fq.gz'', ''b.fq.gz''] \<and>
   file_exists (demo_state [(''a.fq.gz'', ''A''), (''b.fq.gz'', ''B''), (''o.fq.gz'', ''O'')]) ''o.fq.gz'' \<and>
   merge_list_fastqs demo_env [''a.fq.gz'', ''b.fq.gz''] ''o.fq.gz''
       (demo_state [(''a.fq.gz'', ''A''), (''b.fq.gz'', ''B''), (''o.fq.gz'', ''O'')])
     = (Inr ''o.fq.gz'', demo_state [(''a.fq.gz'', ''A''), (''b.fq.gz'', ''B''), (''o.fq.gz'', ''O'')])"
proof -
  let ?st = "demo_state [(''a.fq.gz'', ''A''), (''b.fq.gz'', ''B''), (''o.fq.gz'', ''O'')]"
  have h1: "list_all (is_fastq demo_env) [''a.fq.gz'', ''b.fq.gz'']"
    by (simp add: demo_defs path_defs)
  have h2: "list_all (file_exists ?st) [''a.fq.gz'', ''b.fq.gz'']"
    by (simp add: demo_defs)
  have h3: "file_exists ?st ''o.fq.gz''"
    by (simp add: demo_defs)
  show ?thesis
    using h1 h2 h3 C3_merge_cached [OF h1 h2 h3] by simp
qed

text \<open>
  The claim as written fails after a merge of one single-end file: the first call moves
  \<open>a.fq.gz\<close> to the output path, and the same call again, with the output now in place,
  fails the existence assertion on the moved input instead of returning the output path.
\<close>

lemma demo_single_move:
  "merge_list_fastqs demo_env [''a.fq.gz''] ''o.fq.gz'' (demo_state [(''a.fq.gz'', ''A'')])
     = (Inr ''o.fq.gz'',
        \<lparr>disk = [''o.fq.gz'' \<mapsto> ''A''], dirs = [], trace = [Moved ''a.fq.gz'' ''o.fq.gz'']\<rparr>)"
  by (simp add: merge_list_fastqs_def gzip_fastq_def move_def demo_defs path_defs fun_eq_iff
      Let_def)

theorem C3_merge_after_move_counterexample:
  "file_exists (snd (merge_list_fastqs demo_env [''a.fq.gz''] ''o.fq.gz''
                       (demo_state [(''a.fq.gz'', ''A'')]))) ''o.fq.gz'' \<and>
   fst (merge_list_fastqs demo_env [''a.fq.gz''] ''o.fq.gz''
          (snd (merge_list_fastqs demo_env [''a.fq.gz''] ''o.fq.gz''
                  (demo_state [(''a.fq.gz'', ''A'')]))))
     = Inl (NotAllExist [''a.fq.gz''])"
  unfolding demo_single_move
  by (simp add: merge_list_fastqs_def demo_defs path_defs)

subsection \<open>Staging: the entry check\<close>

text \<open>
  Claim C2, as the code has it. The assertion at entry tests that the key \<open>files\<close> is
  present. A call without that key fails there, before any directory is made and before any
  file is looked at.
\<close>

theorem C2_no_files_key:
  "files d = None \<Longrightarrow> get_fastq_files e d st = (Inl NoFilesInInput, st)"
  by (simp add: get_fastq_files_def)

theorem C2_no_files_key_witness:
  "files ((demo_data [] ''bwa'')\<lparr>files := None\<rparr>) = None \<and>
   get_fastq_files demo_env ((demo_data [] ''bwa'')\<lparr>files := None\<rparr>) (demo_state [])
     = (Inl NoFilesInInput, demo_state [])"
proof -
  have h: "files ((demo_data [] ''bwa'')\<lparr>files := None\<rparr>) = None"
    by simp
  show ?thesis
    using h C2_no_files_key [OF h] by simp
qed

text \<open>
  The claim as written fails: with the key present and the list empty the call returns the
  empty list, after making the \<open>fastq\<close> directory.
\<close>

theorem C2_empty_list_counterexample:
  "files (demo_data [] ''bwa'') = Some [] \<and>
   get_fastq_files demo_env (demo_data [] ''bwa'') (demo_state [])
     = (Inr [], \<lparr>disk = Map.empty, dirs = [''/work/fastq''],
                 trace = [Makedir ''/work/fastq'']\<rparr>)"
  by (simp add: get_fastq_files_def safe_makedir_def drop_none_def demo_defs path_defs)

subsection \<open>Facts about the path functions\<close>

lemma dirpart_basename: "dirpart p @ basename p = p"
proof -
  have "dirpart p @ basename p
        = rev (takeWhile (\<lambda>c. c \<noteq> CHR ''/'') (rev p) @ dropWhile (\<lambda>c. c \<noteq> CHR ''/'') (rev p))"
    unfolding dirpart_def basename_def by (simp only: rev_append)
  also have "\<dots> = rev (rev p)"
    by (simp only: takeWhile_dropWhile_id)
  finally show ?thesis by simp
qed

lemma split_last_dot:
  assumes "CHR ''.'' \<in> set name"
  shows "take (length name - length (rev (takeWhile (\<lambda>c. c \<noteq> CHR ''.'') (rev name))) - 1) name
           @ CHR ''.'' # rev (takeWhile (\<lambda>c. c \<noteq> CHR ''.'') (rev name)) = name"
proof -
  let ?P = "\<lambda>c. c \<noteq> CHR ''.''"
  let ?ext = "rev (takeWhile ?P (rev name))"
  have ne: "dropWhile ?P (rev name) \<noteq> []"
    using assms by auto
  then obtain x tl where tl: "dropWhile ?P (rev name) = x # tl"
    by (cases "dropWhile ?P (rev name)") auto
  have "\<not> ?P (hd (dropWhile ?P (rev name)))"
    using ne by (rule hd_dropWhile)
  then have x: "x = CHR ''.''"
    using tl by simp
  have "rev name = takeWhile ?P (rev name) @ dropWhile ?P (rev name)"
    by (simp only: takeWhile_dropWhile_id)
  then have "rev (rev name) = rev (takeWhile ?P (rev name) @ CHR ''.'' # tl)"
    using tl x by simp
  then have n: "name = rev tl @ CHR ''.'' # ?ext"
    by simp
  have "length name = length (rev tl) + 1 + length ?ext"
    by (subst n) simp
  then have l: "length name - length ?ext - 1 = length (rev tl)"
    by simp
  have "take (length (rev tl)) name = rev tl"
    by (subst n) simp
  then show ?thesis
    using n l by simp
qed

lemma splitext_append: "fst (splitext p) @ snd (splitext p) = p"
proof (cases "CHR ''.'' \<in> set (basename p)")
  case True
  show ?thesis
    using split_last_dot [OF True] dirpart_basename [of p]
    by (simp add: splitext_def Let_def)
next
  case False
  then show ?thesis by (simp add: splitext_def Let_def)
qed


lemma takeWhile_no_slash:
  "CHR ''/'' \<notin> set s \<Longrightarrow>
   takeWhile (\<lambda>c. c \<noteq> CHR ''/'') (rev s @ ys) = rev s @ takeWhile (\<lambda>c. c \<noteq> CHR ''/'') ys"
  by (rule takeWhile_append2) auto

lemma basename_no_slash: "CHR ''/'' \<notin> set s \<Longrightarrow> basename (p @ s) = basename p @ s"
  by (simp add: basename_def takeWhile_no_slash)

lemma basename_slash: "CHR ''/'' \<notin> set s \<Longrightarrow> basename (a @ CHR ''/'' # s) = s"
proof -
  assume s: "CHR ''/'' \<notin> set s"
  have "takeWhile (\<lambda>c. c \<noteq> CHR ''/'') (rev s @ CHR ''/'' # rev a) = rev s"
    using s by (simp add: takeWhile_no_slash)
  then show ?thesis
    by (simp add: basename_def)
qed

lemma basename_free: "CHR ''/'' \<notin> set (basename p)"
proof
  assume "CHR ''/'' \<in> set (basename p)"
  then have "CHR ''/'' \<in> set (takeWhile (\<lambda>c. c \<noteq> CHR ''/'') (rev p))"
    by (simp add: basename_def)
  then show False
    by (auto dest: set_takeWhileD)
qed

lemma endswith_slash: "endswith a ''/'' \<Longrightarrow> \<exists>b. a = b @ ''/''"
proof -
  assume "endswith a ''/''"
  then have "drop (length a - 1) a = ''/''"
    by (simp add: endswith_def)
  then have "take (length a - 1) a @ ''/'' = a"
    using append_take_drop_id [of "length a - 1" a] by simp
  then show ?thesis
    by (intro exI [of _ "take (length a - 1) a"]) simp
qed

lemma basename_join: "CHR ''/'' \<notin> set s \<Longrightarrow> basename (join a s) = s"
proof -
  assume s: "CHR ''/'' \<notin> set s"
  have ns: "\<not> startswith s ''/''"
    using s by (cases s) (auto simp: startswith_def)
  have e: "basename s = s"
    using basename_no_slash [OF s, of "[]"] by (simp add: basename_def)
  show ?thesis
  proof (cases "a = []")
    case True
    then show ?thesis using ns e by (simp add: join_def)
  next
    case False
    show ?thesis
    proof (cases "endswith a ''/''")
      case True
      then obtain b where "a = b @ ''/''"
        using endswith_slash by blast
      then have "a @ s = b @ CHR ''/'' # s"
        by simp
      then show ?thesis
        using True ns basename_slash [OF s, of b] by (simp add: join_def)
    next
      case nend: False
      then show ?thesis
        using False ns basename_slash [OF s, of a] by (simp add: join_def)
    qed
  qed
qed

subsection \<open>The bzip2 to gzip transform\<close>

text \<open>
  Claim C8, as the code has it. \<open>_bzip_gzip\<close> returns its input unchanged, with no effect,
  when the input is not bzip2-compressed. For a bzip2-compressed file that is not remote and
  whose name without its last extension satisfies the read-format predicate, the output path
  is determined by the input path and the output directory alone: the name without the last
  extension, followed by \<open>.gz\<close>, in the output directory when one is given; its last
  component is the one of the input with the extension swapped. When that path exists it is
  returned and nothing is run; otherwise the pipeline \<open>bunzip2 | gzip\<close> runs once and writes
  it.
\<close>

theorem C8_bzip_gzip_local:
  assumes "target = (if truthy out_dir
                     then join (the out_dir) (basename (fst (splitext f)) @ ''.gz'')
                     else fst (splitext f) @ ''.gz'')"
  shows "(\<not> is_bzipped e f \<longrightarrow> bzip_gzip e f out_dir st = (Inr f, st)) \<and>
         (is_bzipped e f \<and> is_fastq e (fst (splitext f)) \<and> \<not> is_remote e f \<and>
          file_exists st target \<longrightarrow>
            bzip_gzip e f out_dir st = (Inr target, st)) \<and>
         (is_bzipped e f \<and> is_fastq e (fst (splitext f)) \<and> \<not> is_remote e f \<and>
          \<not> file_exists st target \<and> disk st f = Some b \<and> bunzip2 e b = Some c \<longrightarrow>
            bzip_gzip e f out_dir st =
              (Inr target, st\<lparr>disk := (disk st)(target \<mapsto> gzip e c),
                              trace := trace st @ [Ran (Bunzip2Gzip f) target]\<rparr>)) \<and>
         fst (splitext f) @ snd (splitext f) = f \<and>
         basename target = basename (fst (splitext f)) @ ''.gz''"
proof -
  have p1: "\<not> is_bzipped e f \<longrightarrow> bzip_gzip e f out_dir st = (Inr f, st)"
    by (simp add: bzip_gzip_def)
  have p2: "is_bzipped e f \<and> is_fastq e (fst (splitext f)) \<and> \<not> is_remote e f \<and>
          file_exists st target \<longrightarrow> bzip_gzip e f out_dir st = (Inr target, st)"
    using assms by (simp add: bzip_gzip_def Let_def)
  have p3: "is_bzipped e f \<and> is_fastq e (fst (splitext f)) \<and> \<not> is_remote e f \<and>
          \<not> file_exists st target \<and> disk st f = Some b \<and> bunzip2 e b = Some c \<longrightarrow>
            bzip_gzip e f out_dir st =
              (Inr target, st\<lparr>disk := (disk st)(target \<mapsto> gzip e c),
                              trace := trace st @ [Ran (Bunzip2Gzip f) target]\<rparr>)"
    using assms by (simp add: bzip_gzip_def Let_def run_tx_def)
  have gz: "CHR ''/'' \<notin> set (basename (fst (splitext f)) @ ''.gz'')"
    using basename_free [of "fst (splitext f)"] by simp
  have p5: "basename target = basename (fst (splitext f)) @ ''.gz''"
  proof (cases "truthy out_dir")
    case True
    then show ?thesis
      using assms basename_join [OF gz] by simp
  next
    case False
    then show ?thesis
      using assms basename_no_slash [of "''.gz''" "fst (splitext f)"] by simp
  qed
  show ?thesis
    using p1 p2 p3 p5 splitext_append [of f] by blast
qed

theorem C8_bzip_gzip_local_witness:
  "''/work/fastq/x.fq.gz'' =
     (if truthy (Some ''/work/fastq'')
      then join (the (Some ''/work/fastq'')) (basename (fst (splitext ''/d/x.fq.bz2'')) @ ''.gz'')
      else fst (splitext ''/d/x.fq.bz2'') @ ''.gz'') \<and>
   \<not> is_bzipped demo_env ''/d/y.fq'' \<and>
   bzip_gzip demo_env ''/d/y.fq'' None (demo_state []) = (Inr ''/d/y.fq'', demo_state []) \<and>
   is_bzipped demo_env ''/d/x.fq.bz2'' \<and> is_fastq demo_env (fst (splitext ''/d/x.fq.bz2'')) \<and>
   \<not> is_remote demo_env ''/d/x.fq.bz2'' \<and>
   file_exists (demo_state [(''/work/fastq/x.fq.gz'', ''G'')]) ''/work/fastq/x.fq.gz'' \<and>
   bzip_gzip demo_env ''/d/x.fq.bz2'' (Some ''/work/fastq'')
       (demo_state [(''/work/fastq/x.fq.gz'', ''G'')])
     = (Inr ''/work/fastq/x.fq.gz'', demo_state [(''/work/fastq/x.fq.gz'', ''G'')]) \<and>
   \<not> file_exists (demo_state [(''/d/x.fq.bz2'', ''Z'')]) ''/work/fastq/x.fq.gz'' \<and>
   disk (demo_state [(''/d/x.fq.bz2'', ''Z'')]) ''/d/x.fq.bz2'' = Some ''Z'' \<and>
   bunzip2 demo_env ''Z'' = Some ''plain(Z)'' \<and>
   bzip_gzip demo_env ''/d/x.fq.bz2'' (Some ''/work/fastq'') (demo_state [(''/d/x.fq.bz2'', ''Z'')])
     = (Inr ''/work/fastq/x.fq.gz'',
        (demo_state [(''/d/x.fq.bz2'', ''Z'')])
          \<lparr>disk := (disk (demo_state [(''/d/x.fq.bz2'', ''Z'')]))
                     (''/work/fastq/x.fq.gz'' \<mapsto> gzip demo_env ''plain(Z)''),
           trace := trace (demo_state [(''/d/x.fq.bz2'', ''Z'')])
                      @ [Ran (Bunzip2Gzip ''/d/x.fq.bz2'') ''/work/fastq/x.fq.gz'']\<rparr>)"
proof -
  have t: "''/work/fastq/x.fq.gz'' =
     (if truthy (Some ''/work/fastq'')
      then join (the (Some ''/work/fastq'')) (basename (fst (splitext ''/d/x.fq.bz2'')) @ ''.gz'')
      else fst (splitext ''/d/x.fq.bz2'') @ ''.gz'')"
    by (simp add: path_defs)
  have t0: "''/d/y.gz'' =
     (if truthy None
      then join (the None) (basename (fst (splitext ''/d/y.fq'')) @ ''.gz'')
      else fst (splitext ''/d/y.fq'') @ ''.gz'')"
    by (simp add: path_defs)
  have h1: "\<not> is_bzipped demo_env ''/d/y.fq''"
    by (simp add: demo_defs path_defs)
  have h2: "is_bzipped demo_env ''/d/x.fq.bz2''"
    by (simp add: demo_defs path_defs)
  have h3: "is_fastq demo_env (fst (splitext ''/d/x.fq.bz2''))"
    by (simp add: demo_defs path_defs)
  have h4: "\<not> is_remote demo_env ''/d/x.fq.bz2''"
    by (simp add: demo_defs path_defs)
  have h5: "file_exists (demo_state [(''/work/fastq/x.fq.gz'', ''G'')]) ''/work/fastq/x.fq.gz''"
    by (simp add: demo_defs)
  have h6: "\<not> file_exists (demo_state [(''/d/x.fq.bz2'', ''Z'')]) ''/work/fastq/x.fq.gz''"
    by (simp add: demo_defs)
  have h7: "disk (demo_state [(''/d/x.fq.bz2'', ''Z'')]) ''/d/x.fq.bz2'' = Some ''Z''"
    by (simp add: demo_defs)
  have h8: "bunzip2 demo_env ''Z'' = Some ''plain(Z)''"
    by (simp add: demo_defs)
  have c1: "bzip_gzip demo_env ''/d/y.fq'' None (demo_state []) = (Inr ''/d/y.fq'', demo_state [])"
    using h1 C8_bzip_gzip_local [OF t0, where e = demo_env and st = "demo_state []"]
    by simp
  have c2: "bzip_gzip demo_env ''/d/x.fq.bz2'' (Some ''/work/fastq'')
       (demo_state [(''/work/fastq/x.fq.gz'', ''G'')])
     = (Inr ''/work/fastq/x.fq.gz'', demo_state [(''/work/fastq/x.fq.gz'', ''G'')])"
    using h2 h3 h4 h5 C8_bzip_gzip_local [OF t, where e = demo_env
        and st = "demo_state [(''/work/fastq/x.fq.gz'', ''G'')]"]
    by simp
  have c3: "bzip_gzip demo_env ''/d/x.fq.bz2'' (Some ''/work/fastq'') (demo_state [(''/d/x.fq.bz2'', ''Z'')])
     = (Inr ''/work/fastq/x.fq.gz'',
        (demo_state [(''/d/x.fq.bz2'', ''Z'')])
          \<lparr>disk := (disk (demo_state [(''/d/x.fq.bz2'', ''Z'')]))
                     (''/work/fastq/x.fq.gz'' \<mapsto> gzip demo_env ''plain(Z)''),
           trace := trace (demo_state [(''/d/x.fq.bz2'', ''Z'')])
                      @ [Ran (Bunzip2Gzip ''/d/x.fq.bz2'') ''/work/fastq/x.fq.gz'']\<rparr>)"
    using h2 h3 h4 h6 h7 h8 C8_bzip_gzip_local [OF t, where e = demo_env
        and st = "demo_state [(''/d/x.fq.bz2'', ''Z'')]" and b = "''Z''" and c = "''plain(Z)''"]
    by simp
  show ?thesis
    using t h1 h2 h3 h4 h5 h6 h7 h8 c1 c2 c3 by (intro conjI)
qed

text \<open>
  The claim as written fails for a remote file: the guard \<open>not objectstore.is_remote\<close>
  makes \<open>_bzip_gzip\<close> return a remote bzip2-compressed read file as it is, whether or not
  the output path exists.
\<close>

theorem C8_remote_bzip2_counterexample:
  "is_bzipped demo_env ''s3://b/x.fq.bz2'' \<and>
   is_fastq demo_env ''s3://b/x.fq.bz2'' \<and>
   is_fastq demo_env (fst (splitext ''s3://b/x.fq.bz2'')) \<and>
   file_exists (demo_state [(''/work/fastq/x.fq.gz'', ''G'')]) ''/work/fastq/x.fq.gz'' \<and>
   bzip_gzip demo_env ''s3://b/x.fq.bz2'' (Some ''/work/fastq'')
       (demo_state [(''/work/fastq/x.fq.gz'', ''G'')])
     = (Inr ''s3://b/x.fq.bz2'', demo_state [(''/work/fastq/x.fq.gz'', ''G'')]) \<and>
   bzip_gzip demo_env ''s3://b/x.fq.bz2'' (Some ''/work/fastq'') (demo_state [])
     = (Inr ''s3://b/x.fq.bz2'', demo_state [])"
  by (simp add: bzip_gzip_def demo_defs path_defs)

subsection \<open>The two modes of \<open>merge\<close>\<close>

lemma those_index_None:
  "f \<in> set fsets \<Longrightarrow> length f \<le> i \<Longrightarrow> those (map (\<lambda>x. index x i) fsets) = None"
  by (induction fsets) (auto simp: index_def split: option.splits)

lemma those_index_Some:
  "list_all (\<lambda>f. i < length f) fsets \<Longrightarrow>
   those (map (\<lambda>x. index x i) fsets) = Some (map (\<lambda>x. x ! i) fsets)"
  by (induction fsets) (auto simp: index_def)

lemma merge_short_set:
  assumes h: "length first > 1" "f \<in> set rest" "length f < 2"
  shows "merge e (first # rest) out_file st = (Inl IndexError, st)"
proof -
  have m: "f \<in> set (first # rest)" and l: "length f \<le> 1"
    using h by simp_all
  have s1: "those (map (\<lambda>x. index x 1) (first # rest)) = None"
    using those_index_None [OF m l] .
  have i0: "index (first # rest) 0 = Some first"
    by (simp add: index_def)
  show ?thesis
    unfolding merge_def s1 i0 using h(1) by (simp add: Let_def split: option.splits)
qed

lemma merge_single_mode:
  assumes h: "length first = 1" "list_all (\<lambda>f. 0 < length f) rest"
  shows "merge e (first # rest) out_file st =
        (case merge_list_fastqs e (map (\<lambda>f. f ! 0) (first # rest)) out_file st of
           (Inl err, st1) \<Rightarrow> (Inl err, st1)
         | (Inr r, st1) \<Rightarrow> (Inr (OnePath r), st1))"
proof -
  have l0: "list_all (\<lambda>f. 0 < length f) (first # rest)"
    using h by auto
  have s0: "those (map (\<lambda>x. index x 0) (first # rest)) = Some (map (\<lambda>x. x ! 0) (first # rest))"
    using those_index_Some [OF l0] .
  have i0: "index (first # rest) 0 = Some first"
    by (simp add: index_def)
  show ?thesis
    unfolding merge_def s0 i0 using h(1) by (simp split: prod.splits sum.splits)
qed

lemma merge_paired_mode:
  assumes h: "length first > 1" "list_all (\<lambda>f. 1 < length f) rest"
  shows "merge e (first # rest) out_file st =
        (case merge_list_fastqs e (map (\<lambda>f. f ! 0) (first # rest))
                (fst (splitext_plus e out_file) @ ''_R1'' @ snd (splitext_plus e out_file)) st of
           (Inl err, st1) \<Rightarrow> (Inl err, st1)
         | (Inr r1, st1) \<Rightarrow>
             (case merge_list_fastqs e (map (\<lambda>f. f ! 1) (first # rest))
                     (fst (splitext_plus e out_file) @ ''_R2'' @ snd (splitext_plus e out_file)) st1 of
                (Inl err, st2) \<Rightarrow> (Inl err, st2)
              | (Inr r2, st2) \<Rightarrow>
                  (Inr (PathList [fst (splitext_plus e out_file) @ ''_R1'' @ snd (splitext_plus e out_file),
                                  fst (splitext_plus e out_file) @ ''_R2'' @ snd (splitext_plus e out_file)]),
                   st2)))"
proof -
  have l0: "list_all (\<lambda>f. 0 < length f) (first # rest)"
    using h by (auto simp: list_all_iff)
  have s0: "those (map (\<lambda>x. index x 0) (first # rest)) = Some (map (\<lambda>x. x ! 0) (first # rest))"
    using those_index_Some [OF l0] .
  have l1: "list_all (\<lambda>f. 1 < length f) (first # rest)"
    using h by simp
  have s1: "those (map (\<lambda>x. index x 1) (first # rest)) = Some (map (\<lambda>x. x ! 1) (first # rest))"
    using those_index_Some [OF l1] .
  have i0: "index (first # rest) 0 = Some first"
    by (simp add: index_def)
  show ?thesis
    unfolding merge_def s0 s1 i0 using h(1) by (simp add: Let_def split: prod.splits sum.splits)
qed

text \<open>
  Claim C10. \<open>merge\<close> chooses its mode from the length of the first FileSet alone and
  checks no other length. An empty sequence fails on \<open>files[0]\<close>. When the first set has
  more than one member, the second member of every set is read, and a later set with fewer
  than two members raises \<open>IndexError\<close> before anything is merged. When the first set has
  one member, the first members of all sets are merged as single-end, whatever the other
  sets hold beyond their first member. When the first set has more than one member and the
  others at least two, the first and second members are merged as mates, and any further
  member is ignored.
\<close>

theorem C10_merge_arity:
  "merge e [] out_file st = (Inl IndexError, st) \<and>
   (length first > 1 \<and> f \<in> set rest \<and> length f < 2 \<longrightarrow>
      merge e (first # rest) out_file st = (Inl IndexError, st)) \<and>
   (length first = 1 \<and> list_all (\<lambda>f. 0 < length f) rest \<longrightarrow>
      merge e (first # rest) out_file st =
        (case merge_list_fastqs e (map (\<lambda>f. f ! 0) (first # rest)) out_file st of
           (Inl err, st1) \<Rightarrow> (Inl err, st1)
         | (Inr r, st1) \<Rightarrow> (Inr (OnePath r), st1))) \<and>
   (length first > 1 \<and> list_all (\<lambda>f. 1 < length f) rest \<longrightarrow>
      merge e (first # rest) out_file st =
        (case merge_list_fastqs e (map (\<lambda>f. f ! 0) (first # rest))
                (fst (splitext_plus e out_file) @ ''_R1'' @ snd (splitext_plus e out_file)) st of
           (Inl err, st1) \<Rightarrow> (Inl err, st1)
         | (Inr r1, st1) \<Rightarrow>
             (case merge_list_fastqs e (map (\<lambda>f. f ! 1) (first # rest))
                     (fst (splitext_plus e out_file) @ ''_R2'' @ snd (splitext_plus e out_file)) st1 of
                (Inl err, st2) \<Rightarrow> (Inl err, st2)
              | (Inr r2, st2) \<Rightarrow>
                  (Inr (PathList [fst (splitext_plus e out_file) @ ''_R1'' @ snd (splitext_plus e out_file),
                                  fst (splitext_plus e out_file) @ ''_R2'' @ snd (splitext_plus e out_file)]),
                   st2))))"
proof -
  have a: "merge e [] out_file st = (Inl IndexError, st)"
    by (simp add: merge_def index_def)
  show ?thesis
    using a merge_short_set [of first f rest e out_file st]
      merge_single_mode [of first rest e out_file st]
      merge_paired_mode [of first rest e out_file st]
    by blast
qed

theorem C10_merge_arity_witness:
  "length [''a1.fq'', ''a2.fq''] > 1 \<and> [''b1.fq''] \<in> set [[''b1.fq'']] \<and> length [''b1.fq''] < 2 \<and>
   merge demo_env [[''a1.fq'', ''a2.fq''], [''b1.fq'']] ''o.fq'' (demo_state [])
     = (Inl IndexError, demo_state []) \<and>
   length [''a1.fq''] = 1 \<and> list_all (\<lambda>f. 0 < length f) [[''b1.fq'', ''b2.fq'']] \<and>
   merge demo_env [[''a1.fq''], [''b1.fq'', ''b2.fq'']] ''o.fq'' (demo_state [])
     = (Inl (NotAllExist [''a1.fq'', ''b1.fq'']), demo_state []) \<and>
   list_all (\<lambda>f. 1 < length f) [[''b1.fq'', ''b2.fq'', ''b3.fq'']] \<and>
   merge demo_env [[''a1.fq'', ''a2.fq''], [''b1.fq'', ''b2.fq'', ''b3.fq'']] ''o.fq'' (demo_state [])
     = (Inl (NotAllExist [''a1.fq'', ''b1.fq'']), demo_state [])"
proof -
  have fq: "list_all (is_fastq demo_env) [''a1.fq'', ''b1.fq'']"
    by (simp add: demo_defs path_defs)
  have m: "merge_list_fastqs demo_env [''a1.fq'', ''b1.fq''] p (demo_state [])
             = (Inl (NotAllExist [''a1.fq'', ''b1.fq'']), demo_state [])" for p
    using fq by (simp add: merge_list_fastqs_def file_exists_def demo_state_def)
  have b: "merge demo_env [[''a1.fq'', ''a2.fq''], [''b1.fq'']] ''o.fq'' (demo_state [])
             = (Inl IndexError, demo_state [])"
    using C10_merge_arity [of demo_env "''o.fq''" "demo_state []" "[''a1.fq'', ''a2.fq'']"
        "[''b1.fq'']" "[[''b1.fq'']]"]
    by simp
  have c: "merge demo_env [[''a1.fq''], [''b1.fq'', ''b2.fq'']] ''o.fq'' (demo_state [])
             = (Inl (NotAllExist [''a1.fq'', ''b1.fq'']), demo_state [])"
    using C10_merge_arity [of demo_env "''o.fq''" "demo_state []" "[''a1.fq'']"
        "[''b1.fq'']" "[[''b1.fq'', ''b2.fq'']]"] m
    by simp
  have d: "merge demo_env [[''a1.fq'', ''a2.fq''], [''b1.fq'', ''b2.fq'', ''b3.fq'']] ''o.fq''
             (demo_state [])
             = (Inl (NotAllExist [''a1.fq'', ''b1.fq'']), demo_state [])"
    using C10_merge_arity [of demo_env "''o.fq''" "demo_state []" "[''a1.fq'', ''a2.fq'']"
        "[''b1.fq'']" "[[''b1.fq'', ''b2.fq'', ''b3.fq'']]"] m
    by simp
  show ?thesis
    using b c d by simp
qed

subsection \<open>Staging: remote files\<close>

lemma loop_append:
  "get_fastq_files_loop e d (xs @ ys) ready st =
     (case get_fastq_files_loop e d xs ready st of
        (Inl err, s) \<Rightarrow> (Inl err, s)
      | (Inr r, s) \<Rightarrow> get_fastq_files_loop e d ys r s)"
  by (induction xs arbitrary: ready st) (auto split: prod.splits sum.splits)

lemma loop_remote_step:
  "is_remote e f \<Longrightarrow> \<not> endswith f ''.bam'' \<Longrightarrow>
   get_fastq_files_loop e d (f # rest) ready s = get_fastq_files_loop e d rest (ready @ [Some f]) s"
  by simp

lemma loop_keeps_ready:
  "list_all (\<lambda>g. \<not> endswith g ''.bam'') post \<Longrightarrow>
   get_fastq_files_loop e d post ready st = (Inr r, s) \<Longrightarrow> \<exists>ext. r = ready @ ext"
proof (induction post arbitrary: ready st)
  case Nil
  then show ?case by simp
next
  case (Cons g post)
  from Cons.prems obtain ready' st' where
    step: "get_fastq_files_loop e d post ready' st' = (Inr r, s)" and pre: "\<exists>x. ready' = ready @ [x]"
    by (auto split: if_splits prod.splits sum.splits)
  from Cons.prems have "list_all (\<lambda>g. \<not> endswith g ''.bam'') post"
    by simp
  from Cons.IH [OF this step] pre show ?case
    by auto
qed

lemma gzip_fastq_remote: "is_remote e f \<Longrightarrow> gzip_fastq e f out_dir s = (Inr f, s)"
  by (simp add: gzip_fastq_def)

lemma gzip_all_each:
  "gzip_all e od xs st = (Inr ys, s) \<Longrightarrow>
   list_all2 (\<lambda>x y. \<exists>s1 s2. gzip_fastq e x od s1 = (Inr y, s2)) xs ys"
proof (induction xs arbitrary: ys st)
  case Nil
  then show ?case by simp
next
  case (Cons x xs)
  from Cons.prems obtain y st1 ys' where
    h: "gzip_fastq e x od st = (Inr y, st1)" "gzip_all e od xs st1 = (Inr ys', s)" "ys = y # ys'"
    by (auto split: prod.splits sum.splits)
  from Cons.IH [OF h(2)] h(1) h(3) show ?case
    by auto
qed

lemma gzip_all_keeps_remote:
  assumes "gzip_all e od xs st = (Inr ys, s)" "f \<in> set xs" "is_remote e f"
  shows "f \<in> set ys"
proof -
  from gzip_all_each [OF assms(1)]
  have l2: "list_all2 (\<lambda>x y. \<exists>s1 s2. gzip_fastq e x od s1 = (Inr y, s2)) xs ys" .
  from assms(2) obtain i where i: "i < length xs" "xs ! i = f"
    by (auto simp: in_set_conv_nth)
  from l2 i have "\<exists>s1 s2. gzip_fastq e f od s1 = (Inr (ys ! i), s2)"
    by (auto simp: list_all2_conv_all_nth)
  then have "ys ! i = f"
    using gzip_fastq_remote [OF assms(3)] by auto
  moreover have "i < length ys"
    using l2 i by (auto simp: list_all2_conv_all_nth)
  ultimately show ?thesis
    by (auto simp: in_set_conv_nth)
qed

lemma drop_none_mem: "Some f \<in> set xs \<Longrightarrow> f \<in> set (drop_none xs)"
  by (force simp: drop_none_def)

lemmas run_defs = get_fastq_files_def safe_makedir_def drop_none_def gzip_fastq_def bzip_gzip_def
  pipeline_needs_fastq_def convert_bam_to_fastq_def run_tx_def Let_def

text \<open>
  Claim C4, as the code has it. The test for an aligned-binary file comes before the test
  for a remote file. A remote file whose name does not end in \<open>.bam\<close> is appended to the
  ready files without any effect, gzip normalisation returns it as it is without any effect,
  and it is a member of the result of every returning call in which no later input is a
  \<open>.bam\<close> file.
\<close>

theorem C4_remote_not_bam_passthrough:
  assumes rem: "is_remote e f" and nb: "\<not> endswith f ''.bam''"
  shows "gzip_fastq e f out_dir s = (Inr f, s) \<and>
         get_fastq_files_loop e d (f # rest) ready s
           = get_fastq_files_loop e d rest (ready @ [Some f]) s \<and>
         (files d = Some (pre @ f # post) \<and> list_all (\<lambda>g. \<not> endswith g ''.bam'') post \<and>
          get_fastq_files e d st = (Inr out, st') \<longrightarrow> f \<in> set out)"
proof -
  have mem: "f \<in> set out"
    if fs: "files d = Some (pre @ f # post)" and post: "list_all (\<lambda>g. \<not> endswith g ''.bam'') post"
      and run: "get_fastq_files e d st = (Inr out, st')"
  proof -
    from run fs obtain ready0 st1 where
      lp: "get_fastq_files_loop e d (pre @ f # post) [] st = (Inr ready0, st1)"
      by (auto simp: get_fastq_files_def Let_def split: prod.splits sum.splits)
    from lp obtain rp sp where
      "get_fastq_files_loop e d (f # post) rp sp = (Inr ready0, st1)"
      by (auto simp: loop_append split: prod.splits sum.splits)
    then have "get_fastq_files_loop e d post (rp @ [Some f]) sp = (Inr ready0, st1)"
      using loop_remote_step [OF rem nb] by simp
    from loop_keeps_ready [OF post this] have "Some f \<in> set ready0"
      by auto
    then have m: "f \<in> set (drop_none ready0)"
      by (rule drop_none_mem)
    show ?thesis
    proof (cases "''bowtie'' \<in> set (reference d)")
      case True
      with run fs lp have "out = drop_none ready0"
        by (auto simp: get_fastq_files_def Let_def split: prod.splits sum.splits option.splits)
      with m show ?thesis by simp
    next
      case False
      with run fs lp obtain s2 s3 where
        "gzip_all e (Some (join (work_dir d) ''fastq'')) (drop_none ready0) s2 = (Inr out, s3)"
        by (auto simp: get_fastq_files_def Let_def safe_makedir_def
            split: prod.splits sum.splits option.splits)
      from gzip_all_keeps_remote [OF this m rem] show ?thesis .
    qed
  qed
  show ?thesis
    using gzip_fastq_remote [OF rem] loop_remote_step [OF rem nb] mem by blast
qed


lemma demo_run_remote:
  "get_fastq_files demo_env (demo_data [''a.fq.gz'', ''s3://b/y.fastq'', ''c.fq.gz''] ''bwa'')
     (demo_state [(''a.fq.gz'', ''A''), (''c.fq.gz'', ''C'')])
   = (Inr [''a.fq.gz'', ''s3://b/y.fastq'', ''c.fq.gz''],
      \<lparr>disk = map_of [(''a.fq.gz'', ''A''), (''c.fq.gz'', ''C'')],
       dirs = [''/work/fastq''], trace = [Makedir ''/work/fastq'']\<rparr>)"
  by (simp add: run_defs demo_defs path_defs)

theorem C4_remote_not_bam_passthrough_witness:
  "is_remote demo_env ''s3://b/y.fastq'' \<and> \<not> endswith ''s3://b/y.fastq'' ''.bam'' \<and>
   files (demo_data [''a.fq.gz'', ''s3://b/y.fastq'', ''c.fq.gz''] ''bwa'')
     = Some ([''a.fq.gz''] @ ''s3://b/y.fastq'' # [''c.fq.gz'']) \<and>
   list_all (\<lambda>g. \<not> endswith g ''.bam'') [''c.fq.gz''] \<and>
   gzip_fastq demo_env ''s3://b/y.fastq'' (Some ''/work/fastq'') (demo_state [])
     = (Inr ''s3://b/y.fastq'', demo_state []) \<and>
   ''s3://b/y.fastq'' \<in> set [''a.fq.gz'', ''s3://b/y.fastq'', ''c.fq.gz'']"
proof -
  have rem: "is_remote demo_env ''s3://b/y.fastq''"
    by (simp add: demo_defs path_defs)
  have nb: "\<not> endswith ''s3://b/y.fastq'' ''.bam''"
    by (simp add: path_defs)
  have fs: "files (demo_data [''a.fq.gz'', ''s3://b/y.fastq'', ''c.fq.gz''] ''bwa'')
              = Some ([''a.fq.gz''] @ ''s3://b/y.fastq'' # [''c.fq.gz''])"
    by (simp add: demo_defs)
  have post: "list_all (\<lambda>g. \<not> endswith g ''.bam'') [''c.fq.gz'']"
    by (simp add: path_defs)
  note t = C4_remote_not_bam_passthrough [OF rem nb,
      where d = "demo_data [''a.fq.gz'', ''s3://b/y.fastq'', ''c.fq.gz''] ''bwa''"
        and pre = "[''a.fq.gz'']" and post = "[''c.fq.gz'']"
        and st = "demo_state [(''a.fq.gz'', ''A''), (''c.fq.gz'', ''C'')]"
        and out = "[''a.fq.gz'', ''s3://b/y.fastq'', ''c.fq.gz'']"
        and st' = "\<lparr>disk = map_of [(''a.fq.gz'', ''A''), (''c.fq.gz'', ''C'')],
                     dirs = [''/work/fastq''], trace = [Makedir ''/work/fastq'']\<rparr>"
        and out_dir = "Some ''/work/fastq''" and s = "demo_state []"]
  have g: "gzip_fastq demo_env ''s3://b/y.fastq'' (Some ''/work/fastq'') (demo_state [])
     = (Inr ''s3://b/y.fastq'', demo_state [])"
    using t by blast
  have m: "''s3://b/y.fastq'' \<in> set [''a.fq.gz'', ''s3://b/y.fastq'', ''c.fq.gz'']"
    using t fs post demo_run_remote by blast
  show ?thesis
    using rem nb fs post g m by blast
qed

text \<open>
  The claim as written fails for a remote aligned-binary file when the aligner cannot read
  BAM: the file is handed to the conversion and the result holds the converted reads, not
  the file.
\<close>

theorem C4_remote_bam_counterexample:
  "is_remote demo_env ''s3://bucket/x.bam'' \<and>
   get_fastq_files demo_env (demo_data [''s3://bucket/x.bam''] ''bowtie2'') (demo_state [])
   = (Inr [''/work/reads-1.fq.gz'', ''/work/reads-2.fq.gz''],
      \<lparr>disk = [''/work/reads-1.fq.gz'' \<mapsto> ''mate1'', ''/work/reads-2.fq.gz'' \<mapsto> ''mate2''],
       dirs = [''/work'', ''/work/fastq''],
       trace = [Delegate ''prep_fastq_inputs'' [''s3://bucket/x.bam''], Makedir ''/work/fastq'']\<rparr>)"
  by (simp add: run_defs demo_defs path_defs)

subsection \<open>Staging: aligned-binary files after other inputs\<close>

text \<open>
  Both BAM branches assign \<open>ready_files\<close> where the other branches append to it, so the
  files resolved before a BAM file are dropped, for every input and state.
\<close>

lemma loop_bam_resets:
  "endswith f ''.bam'' \<Longrightarrow> \<not> pipeline_needs_fastq e d \<Longrightarrow>
   get_fastq_files_loop e d (f # rest) ready st = get_fastq_files_loop e d rest [Some f] st"
  by simp

text \<open>
  Claim C1 says that outputs of earlier inputs are retained when a later input is an
  aligned-binary file. On the inputs \<open>a.fastq.gz\<close>, \<open>b.bam\<close> the code returns only
  \<open>b.bam\<close> when the aligner reads BAM, and only the converted reads when it does not:
  \<open>a.fastq.gz\<close> is lost in both runs.
\<close>

theorem C1_bam_drops_earlier_outputs:
  "get_fastq_files demo_env (demo_data [''a.fastq.gz'', ''b.bam''] ''bwa'')
     (demo_state [(''a.fastq.gz'', ''A''), (''b.bam'', ''B'')])
   = (Inr [''b.bam''],
      \<lparr>disk = map_of [(''a.fastq.gz'', ''A''), (''b.bam'', ''B'')],
       dirs = [''/work/fastq''], trace = [Makedir ''/work/fastq'']\<rparr>) \<and>
   get_fastq_files demo_env (demo_data [''a.fastq.gz'', ''b.bam''] ''bowtie2'')
     (demo_state [(''a.fastq.gz'', ''A''), (''b.bam'', ''B'')])
   = (Inr [''/work/reads-1.fq.gz'', ''/work/reads-2.fq.gz''],
      \<lparr>disk = (map_of [(''a.fastq.gz'', ''A''), (''b.bam'', ''B'')])
                (''/work/reads-1.fq.gz'' \<mapsto> ''mate1'', ''/work/reads-2.fq.gz'' \<mapsto> ''mate2''),
       dirs = [''/work'', ''/work/fastq''],
       trace = [Delegate ''prep_fastq_inputs'' [''b.bam''], Makedir ''/work/fastq'']\<rparr>)"
  by (simp add: run_defs demo_defs path_defs)

subsection \<open>Staging: the gzip step\<close>





subsection \<open>Paired merge\<close>

text \<open>
  Every input of a merge goes through gzip normalisation first (line 129), so what is
  concatenated is the normalised file of each mate. The lemmas follow the files through the
  two merges: a normalisation writes at most the \<open>.gz\<close> path of its input and only when
  that path is free, so files on disk keep their bytes and a normalised file, once there, is
  the one every later step finds.
\<close>

lemma normalised_bytes_on_disk:
  "file_exists st (normalised_path e p) \<Longrightarrow>
   normalised_bytes e st p = disk st (normalised_path e p)"
  by (auto simp: normalised_bytes_def file_exists_def)

lemma gzip_fastq_normalised:
  assumes same: "disk s p = disk st p"
    and stale: "file_exists st (normalised_path e p) \<longrightarrow>
                  disk s (normalised_path e p) = disk st (normalised_path e p)"
    and made: "file_exists s (normalised_path e p) \<longrightarrow>
                 disk s (normalised_path e p) = normalised_bytes e st p"
    and ok: "normalised_bytes e st p \<noteq> None"
  shows "\<exists>s'. gzip_fastq e p None s = (Inr (normalised_path e p), s') \<and>
              disk s' (normalised_path e p) = normalised_bytes e st p \<and>
              (\<forall>x. x \<noteq> normalised_path e p \<longrightarrow> disk s' x = disk s x) \<and>
              (file_exists s (normalised_path e p) \<longrightarrow> s' = s) \<and>
              dirs s' = dirs s"
proof (cases "file_exists s (normalised_path e p)")
  case True
  have "gzip_fastq e p None s = (Inr (normalised_path e p), s)"
    using True
    by (auto simp: gzip_fastq_def bzip_gzip_def normalised_path_def Let_def)
  then show ?thesis
    using True made by auto
next
  case False
  have np: "normalised_path e p \<noteq> p"
  proof
    assume eq: "normalised_path e p = p"
    then have "normalised_bytes e st p = disk st p"
      by (simp add: normalised_bytes_def)
    with ok same eq False show False
      by (simp add: file_exists_def)
  qed
  have nst: "disk st (normalised_path e p) = None"
    using stale False by (auto simp: file_exists_def)
  from ok np nst obtain c where c: "disk st p = Some c"
    by (auto simp: normalised_bytes_def split: option.splits)
  from ok np nst c have bytes: "normalised_bytes e st p =
      (if is_bzipped e p then map_option (gzip e) (bunzip2 e c) else Some (gzip e c))"
    by (simp add: normalised_bytes_def)
  from ok bytes obtain b where b: "normalised_bytes e st p = Some b"
    by auto
  let ?cmd = "if is_bzipped e p then Bunzip2Gzip p else GzipC p"
  let ?s' = "s\<lparr>disk := (disk s)(normalised_path e p \<mapsto> b),
                trace := trace s @ [Ran ?cmd (normalised_path e p)]\<rparr>"
  have ex: "exec_cmd e (disk s) ?cmd = Some b"
    using same c bytes b by (auto split: if_splits)
  have run: "run_tx e ?cmd (normalised_path e p) s = (Inr (), ?s')"
    using ex by (simp add: run_tx_def)
  have "gzip_fastq e p None s = (Inr (normalised_path e p), ?s')"
  proof (cases "is_bzipped e p")
    case True
    with np have br: "is_fastq e p" "\<not> is_remote e p" "is_fastq e (fst (splitext p))"
      and t: "normalised_path e p = fst (splitext p) @ ''.gz''"
      by (auto simp: normalised_path_def split: if_splits)
    show ?thesis
      using True br False run unfolding t
      by (simp add: gzip_fastq_def bzip_gzip_def Let_def)
  next
    case nb: False
    with np have br: "is_fastq e p" "\<not> is_remote e p" "\<not> is_gzipped e p"
      and t: "normalised_path e p = p @ ''.gz''"
      by (auto simp: normalised_path_def split: if_splits)
    show ?thesis
      using nb br False run unfolding t
      by (simp add: gzip_fastq_def Let_def)
  qed
  then show ?thesis
    using b False by auto
qed


lemma gzip_all_normalised:
  assumes ok: "\<forall>p\<in>M. normalised_bytes e st p \<noteq> None"
    and ex: "\<forall>p\<in>M. file_exists st p"
    and inj: "\<forall>p\<in>M. \<forall>q\<in>M. normalised_path e p = normalised_path e q \<longrightarrow>
                p = q \<or> file_exists st (normalised_path e p)"
    and sub: "set ps \<subseteq> M"
    and inv: "\<forall>p\<in>M. disk s p = disk st p \<and>
                (file_exists st (normalised_path e p) \<longrightarrow>
                   disk s (normalised_path e p) = disk st (normalised_path e p)) \<and>
                (file_exists s (normalised_path e p) \<longrightarrow>
                   disk s (normalised_path e p) = normalised_bytes e st p)"
  shows "\<exists>s'. gzip_all e None ps s = (Inr (map (normalised_path e) ps), s') \<and>
           (\<forall>p\<in>M. disk s' p = disk st p \<and>
                (file_exists st (normalised_path e p) \<longrightarrow>
                   disk s' (normalised_path e p) = disk st (normalised_path e p)) \<and>
                (file_exists s' (normalised_path e p) \<longrightarrow>
                   disk s' (normalised_path e p) = normalised_bytes e st p)) \<and>
           (\<forall>p\<in>set ps. disk s' (normalised_path e p) = normalised_bytes e st p) \<and>
           (\<forall>x. x \<notin> normalised_path e ` M \<longrightarrow> disk s' x = disk s x) \<and>
           (\<forall>x. file_exists s x \<longrightarrow> disk s' x = disk s x) \<and>
           dirs s' = dirs s"
  using sub inv
proof (induction ps arbitrary: s)
  case Nil
  then show ?case by simp
next
  case (Cons p ps)
  let ?n = "normalised_path e"
  have pM: "p \<in> M" and sub': "set ps \<subseteq> M"
    using Cons.prems(1) by simp_all
  note inv = Cons.prems(2)
  from inv pM ok obtain s1 where
    g: "gzip_fastq e p None s = (Inr (?n p), s1)"
    and b: "disk s1 (?n p) = normalised_bytes e st p"
    and fr: "\<forall>x. x \<noteq> ?n p \<longrightarrow> disk s1 x = disk s x"
    and same: "file_exists s (?n p) \<longrightarrow> s1 = s"
    and d: "dirs s1 = dirs s"
    using gzip_fastq_normalised [of s p st e] by blast
  have keep: "disk s1 x = disk s x" if "file_exists s x" for x
    using that fr same by (cases "x = ?n p") auto
  have inv1: "\<forall>q\<in>M. disk s1 q = disk st q \<and>
                (file_exists st (?n q) \<longrightarrow> disk s1 (?n q) = disk st (?n q)) \<and>
                (file_exists s1 (?n q) \<longrightarrow> disk s1 (?n q) = normalised_bytes e st q)"
  proof
    fix q assume qM: "q \<in> M"
    from inv qM have i1: "disk s q = disk st q"
      and i2: "file_exists st (?n q) \<longrightarrow> disk s (?n q) = disk st (?n q)"
      and i3: "file_exists s (?n q) \<longrightarrow> disk s (?n q) = normalised_bytes e st q"
      by auto
    have "file_exists s q"
      using ex qM i1 by (simp add: file_exists_def)
    then have c1: "disk s1 q = disk st q"
      using keep i1 by simp
    have c2: "disk s1 (?n q) = disk st (?n q)" if "file_exists st (?n q)"
    proof -
      from that i2 have "file_exists s (?n q)"
        by (simp add: file_exists_def)
      then show ?thesis
        using keep i2 that by simp
    qed
    have c3: "disk s1 (?n q) = normalised_bytes e st q" if h: "file_exists s1 (?n q)"
    proof (cases "?n q = ?n p")
      case True
      from inj pM qM True have "p = q \<or> file_exists st (?n p)"
        by auto
      then have "normalised_bytes e st p = normalised_bytes e st q"
      proof
        assume "p = q"
        then show ?thesis by simp
      next
        assume "file_exists st (?n p)"
        then show ?thesis
          using True normalised_bytes_on_disk [of st e p] normalised_bytes_on_disk [of st e q]
          by simp
      qed
      then show ?thesis
        using b True by simp
    next
      case False
      with fr have "disk s1 (?n q) = disk s (?n q)"
        by simp
      then show ?thesis
        using h i3 by (simp add: file_exists_def)
    qed
    show "disk s1 q = disk st q \<and>
          (file_exists st (?n q) \<longrightarrow> disk s1 (?n q) = disk st (?n q)) \<and>
          (file_exists s1 (?n q) \<longrightarrow> disk s1 (?n q) = normalised_bytes e st q)"
      using c1 c2 c3 by blast
  qed
  from Cons.IH [OF sub' inv1] obtain s' where
    ga: "gzip_all e None ps s1 = (Inr (map ?n ps), s')"
    and inv': "\<forall>p\<in>M. disk s' p = disk st p \<and>
                (file_exists st (?n p) \<longrightarrow> disk s' (?n p) = disk st (?n p)) \<and>
                (file_exists s' (?n p) \<longrightarrow> disk s' (?n p) = normalised_bytes e st p)"
    and bs: "\<forall>p\<in>set ps. disk s' (?n p) = normalised_bytes e st p"
    and fr': "\<forall>x. x \<notin> ?n ` M \<longrightarrow> disk s' x = disk s1 x"
    and keep': "\<forall>x. file_exists s1 x \<longrightarrow> disk s' x = disk s1 x"
    and d': "dirs s' = dirs s1"
    by blast
  have r: "gzip_all e None (p # ps) s = (Inr (map ?n (p # ps)), s')"
    using g ga by simp
  have "file_exists s1 (?n p)"
    using b ok pM by (simp add: file_exists_def)
  then have bp: "disk s' (?n p) = normalised_bytes e st p"
    using keep' b by simp
  have frame: "\<forall>x. x \<notin> ?n ` M \<longrightarrow> disk s' x = disk s x"
  proof (intro allI impI)
    fix x assume x: "x \<notin> ?n ` M"
    then have "x \<noteq> ?n p"
      using pM by auto
    then show "disk s' x = disk s x"
      using fr fr' x by simp
  qed
  have keeps: "\<forall>x. file_exists s x \<longrightarrow> disk s' x = disk s x"
  proof (intro allI impI)
    fix x assume x: "file_exists s x"
    then have "disk s1 x = disk s x"
      by (rule keep)
    moreover from this x have "file_exists s1 x"
      by (simp add: file_exists_def)
    ultimately show "disk s' x = disk s x"
      using keep' by simp
  qed
  show ?case
    using r inv' bs bp frame keeps d d' by (intro exI [of _ s']) simp
qed


lemma those_map_Some:
  "\<forall>x\<in>set xs. f x \<noteq> None \<Longrightarrow> those (map f xs) = Some (map (\<lambda>x. the (f x)) xs)"
  by (induction xs) auto

lemma merge_list_cat_normalised:
  assumes ok: "\<forall>p\<in>M. normalised_bytes e st p \<noteq> None"
    and ex: "\<forall>p\<in>M. file_exists st p"
    and inj: "\<forall>p\<in>M. \<forall>q\<in>M. normalised_path e p = normalised_path e q \<longrightarrow>
                p = q \<or> file_exists st (normalised_path e p)"
    and sub: "set ps \<subseteq> M"
    and inv: "\<forall>p\<in>M. disk s p = disk st p \<and>
                (file_exists st (normalised_path e p) \<longrightarrow>
                   disk s (normalised_path e p) = disk st (normalised_path e p)) \<and>
                (file_exists s (normalised_path e p) \<longrightarrow>
                   disk s (normalised_path e p) = normalised_bytes e st p)"
    and fq: "list_all (is_fastq e) ps"
    and fresh: "\<not> file_exists s out"
    and len: "length ps \<noteq> 1"
    and sep: "out \<notin> normalised_path e ` M"
  shows "\<exists>s'. merge_list_fastqs e ps out s = (Inr out, s') \<and>
           disk s' out = Some (concat (map (\<lambda>p. the (normalised_bytes e st p)) ps)) \<and>
           (\<forall>p\<in>M. disk s' p = disk st p \<and>
                (file_exists st (normalised_path e p) \<longrightarrow>
                   disk s' (normalised_path e p) = disk st (normalised_path e p)) \<and>
                (file_exists s' (normalised_path e p) \<longrightarrow>
                   disk s' (normalised_path e p) = normalised_bytes e st p)) \<and>
           (\<forall>x. x \<noteq> out \<and> x \<notin> normalised_path e ` M \<longrightarrow> disk s' x = disk s x) \<and>
           dirs s' = dirs s"
proof -
  let ?n = "normalised_path e"
  have exs: "list_all (file_exists s) ps"
    using ex inv sub by (auto simp: list_all_iff file_exists_def)
  have outM: "out \<notin> M"
    using ex inv fresh by (auto simp: file_exists_def)
  from gzip_all_normalised [OF ok ex inj sub inv] obtain sg where
    ga: "gzip_all e None ps s = (Inr (map ?n ps), sg)"
    and invg: "\<forall>p\<in>M. disk sg p = disk st p \<and>
                (file_exists st (?n p) \<longrightarrow> disk sg (?n p) = disk st (?n p)) \<and>
                (file_exists sg (?n p) \<longrightarrow> disk sg (?n p) = normalised_bytes e st p)"
    and bs: "\<forall>p\<in>set ps. disk sg (?n p) = normalised_bytes e st p"
    and fr: "\<forall>x. x \<notin> ?n ` M \<longrightarrow> disk sg x = disk s x"
    and d: "dirs sg = dirs s"
    by blast
  let ?bytes = "concat (map (\<lambda>p. the (normalised_bytes e st p)) ps)"
  let ?s' = "sg\<lparr>disk := (disk sg)(out \<mapsto> ?bytes),
                 trace := trace sg @ [Ran (Cat (map ?n ps)) out]\<rparr>"
  have "\<forall>p\<in>set ps. disk sg (?n p) \<noteq> None"
    using bs ok sub by auto
  then have "those (map (\<lambda>p. disk sg (?n p)) ps) = Some (map (\<lambda>p. the (disk sg (?n p))) ps)"
    by (rule those_map_Some)
  moreover have "map (\<lambda>p. the (disk sg (?n p))) ps = map (\<lambda>p. the (normalised_bytes e st p)) ps"
    using bs by simp
  ultimately have exc: "exec_cmd e (disk sg) (Cat (map ?n ps)) = Some ?bytes"
    by (simp add: comp_def)
  have run: "run_tx e (Cat (map ?n ps)) out sg = (Inr (), ?s')"
    unfolding run_tx_def exc by simp
  have m: "merge_list_fastqs e ps out s = (Inr out, ?s')"
    using fq exs fresh len ga run by (simp add: merge_list_fastqs_def)
  have inv': "\<forall>p\<in>M. disk ?s' p = disk st p \<and>
                (file_exists st (?n p) \<longrightarrow> disk ?s' (?n p) = disk st (?n p)) \<and>
                (file_exists ?s' (?n p) \<longrightarrow> disk ?s' (?n p) = normalised_bytes e st p)"
  proof
    fix p assume pM: "p \<in> M"
    then have "p \<noteq> out" and "?n p \<noteq> out"
      using outM sep by auto
    then show "disk ?s' p = disk st p \<and>
                (file_exists st (?n p) \<longrightarrow> disk ?s' (?n p) = disk st (?n p)) \<and>
                (file_exists ?s' (?n p) \<longrightarrow> disk ?s' (?n p) = normalised_bytes e st p)"
      using invg pM by (simp add: file_exists_def)
  qed
  have frame: "\<forall>x. x \<noteq> out \<and> x \<notin> ?n ` M \<longrightarrow> disk ?s' x = disk s x"
    using fr by simp
  have "disk ?s' out = Some ?bytes" and "dirs ?s' = dirs s"
    using d by simp_all
  then show ?thesis
    using m inv' frame by blast
qed

lemma merge_list_move_normalised:
  assumes ok: "normalised_bytes e st a \<noteq> None"
    and same: "disk s a = disk st a"
    and stale: "file_exists st (normalised_path e a) \<longrightarrow>
                  disk s (normalised_path e a) = disk st (normalised_path e a)"
    and made: "file_exists s (normalised_path e a) \<longrightarrow>
                 disk s (normalised_path e a) = normalised_bytes e st a"
    and exa: "file_exists st a"
    and fq: "is_fastq e a"
    and fresh: "\<not> file_exists s out"
    and nodir: "\<not> is_dir s out"
    and parent: "dirname out = [] \<or> is_dir s (dirname out)"
  shows "\<exists>s'. merge_list_fastqs e [a] out s = (Inr out, s') \<and>
           disk s' out = normalised_bytes e st a \<and>
           (\<forall>x. x \<noteq> out \<and> x \<noteq> normalised_path e a \<longrightarrow> disk s' x = disk s x) \<and>
           dirs s' = dirs s"
proof -
  let ?n = "normalised_path e"
  from gzip_fastq_normalised [OF same stale made ok] obtain sg where
    g: "gzip_fastq e a None s = (Inr (?n a), sg)"
    and b: "disk sg (?n a) = normalised_bytes e st a"
    and fr: "\<forall>x. x \<noteq> ?n a \<longrightarrow> disk sg x = disk s x"
    and d: "dirs sg = dirs s"
    by blast
  from ok obtain bytes where bytes: "normalised_bytes e st a = Some bytes"
    by auto
  let ?s' = "sg\<lparr>disk := (disk sg)(?n a := None, out \<mapsto> bytes),
                 trace := trace sg @ [Moved (?n a) out]\<rparr>"
  have nd: "\<not> is_dir sg out" and pr: "dirname out = [] \<or> is_dir sg (dirname out)"
    using nodir parent d by (simp_all add: is_dir_def)
  have mv: "move (?n a) out sg = (Inr (), ?s')"
    using nd pr b bytes by (auto simp: move_def Let_def)
  have exs: "file_exists s a"
    using exa same by (simp add: file_exists_def)
  have m: "merge_list_fastqs e [a] out s = (Inr out, ?s')"
    using fq exs fresh g mv by (simp add: merge_list_fastqs_def)
  have "disk ?s' out = normalised_bytes e st a"
    using bytes by simp
  moreover have "\<forall>x. x \<noteq> out \<and> x \<noteq> ?n a \<longrightarrow> disk ?s' x = disk s x"
    using fr by simp
  moreover have "dirs ?s' = dirs s"
    using d by simp
  ultimately show ?thesis
    using m by blast
qed


lemma is_dir_cong: "dirs s = dirs st \<Longrightarrow> is_dir s p = is_dir st p"
  by (simp add: is_dir_def)

lemma merge_pair_normalised:
  assumes v: "\<forall>p\<in>set ps1 \<union> set ps2.
                is_fastq e p \<and> file_exists st p \<and> normalised_bytes e st p \<noteq> None"
    and inj: "\<forall>p\<in>set ps1 \<union> set ps2. \<forall>q\<in>set ps1 \<union> set ps2.
                normalised_path e p = normalised_path e q \<longrightarrow>
                p = q \<or> file_exists st (normalised_path e p)"
    and sep: "\<forall>p\<in>set ps1 \<union> set ps2. normalised_path e p \<noteq> r1 \<and> normalised_path e p \<noteq> r2"
    and len: "length ps1 = length ps2" "ps1 \<noteq> []"
    and n1: "\<not> file_exists st r1" and n2: "\<not> file_exists st r2" and rne: "r1 \<noteq> r2"
    and single: "length ps1 = 1 \<longrightarrow>
                   normalised_path e (hd ps1) \<noteq> hd ps2 \<and>
                   normalised_path e (hd ps1) \<noteq> normalised_path e (hd ps2) \<and>
                   \<not> is_dir st r1 \<and> \<not> is_dir st r2 \<and>
                   (dirname r1 = [] \<or> is_dir st (dirname r1)) \<and>
                   (dirname r2 = [] \<or> is_dir st (dirname r2))"
  shows "\<exists>st1 st2. merge_list_fastqs e ps1 r1 st = (Inr r1, st1) \<and>
           merge_list_fastqs e ps2 r2 st1 = (Inr r2, st2) \<and>
           disk st2 r1 = Some (concat (map (\<lambda>p. the (normalised_bytes e st p)) ps1)) \<and>
           disk st2 r2 = Some (concat (map (\<lambda>p. the (normalised_bytes e st p)) ps2))"
proof -
  let ?n = "normalised_path e"
  let ?M = "set ps1 \<union> set ps2"
  have ok: "\<forall>p\<in>?M. normalised_bytes e st p \<noteq> None" and ex: "\<forall>p\<in>?M. file_exists st p"
    using v by auto
  have fq1: "list_all (is_fastq e) ps1" and fq2: "list_all (is_fastq e) ps2"
    using v by (auto simp: list_all_iff)
  have sep1: "r1 \<notin> ?n ` ?M" and sep2: "r2 \<notin> ?n ` ?M"
    using sep by auto
  have inv0: "\<forall>p\<in>?M. disk st p = disk st p \<and>
                (file_exists st (?n p) \<longrightarrow> disk st (?n p) = disk st (?n p)) \<and>
                (file_exists st (?n p) \<longrightarrow> disk st (?n p) = normalised_bytes e st p)"
    using normalised_bytes_on_disk [of st e] by simp
  show ?thesis
  proof (cases "length ps1 = 1")
    case False
    then have l2: "length ps2 \<noteq> 1"
      using len by simp
    have s1: "set ps1 \<subseteq> ?M" and s2: "set ps2 \<subseteq> ?M"
      by auto
    from merge_list_cat_normalised [OF ok ex inj s1 inv0 fq1 n1 False sep1] obtain st1 where
      m1: "merge_list_fastqs e ps1 r1 st = (Inr r1, st1)"
      and b1: "disk st1 r1 = Some (concat (map (\<lambda>p. the (normalised_bytes e st p)) ps1))"
      and inv1: "\<forall>p\<in>?M. disk st1 p = disk st p \<and>
                (file_exists st (?n p) \<longrightarrow> disk st1 (?n p) = disk st (?n p)) \<and>
                (file_exists st1 (?n p) \<longrightarrow> disk st1 (?n p) = normalised_bytes e st p)"
      and fr1: "\<forall>x. x \<noteq> r1 \<and> x \<notin> ?n ` ?M \<longrightarrow> disk st1 x = disk st x"
      by blast
    have fresh2: "\<not> file_exists st1 r2"
      using fr1 rne sep2 n2 by (simp add: file_exists_def)
    from merge_list_cat_normalised [OF ok ex inj s2 inv1 fq2 fresh2 l2 sep2] obtain st2 where
      m2: "merge_list_fastqs e ps2 r2 st1 = (Inr r2, st2)"
      and b2: "disk st2 r2 = Some (concat (map (\<lambda>p. the (normalised_bytes e st p)) ps2))"
      and fr2: "\<forall>x. x \<noteq> r2 \<and> x \<notin> ?n ` ?M \<longrightarrow> disk st2 x = disk st1 x"
      by blast
    have "disk st2 r1 = disk st1 r1"
      using fr2 rne sep1 by simp
    then show ?thesis
      using m1 m2 b1 b2 by auto
  next
    case True
    then obtain a where a: "ps1 = [a]"
      by (cases ps1) auto
    from True len obtain b where b: "ps2 = [b]"
      by (cases ps2) auto
    from single True a b have nab: "?n a \<noteq> b" and nanb: "?n a \<noteq> ?n b"
      and nd1: "\<not> is_dir st r1" and nd2: "\<not> is_dir st r2"
      and pr1: "dirname r1 = [] \<or> is_dir st (dirname r1)"
      and pr2: "dirname r2 = [] \<or> is_dir st (dirname r2)"
      by simp_all
    have va: "is_fastq e a" "file_exists st a" "normalised_bytes e st a \<noteq> None"
      and vb: "is_fastq e b" "file_exists st b" "normalised_bytes e st b \<noteq> None"
      using v a b by auto
    have sa: "?n a \<noteq> r1" "?n a \<noteq> r2" and sb: "?n b \<noteq> r1" "?n b \<noteq> r2"
      using sep a b by auto
    have made0: "file_exists st (?n p) \<longrightarrow> disk st (?n p) = normalised_bytes e st p" for p
      using normalised_bytes_on_disk [of st e p] by simp
    from merge_list_move_normalised [of e st a st r1, OF va(3) refl _ made0 va(2) va(1) n1 nd1 pr1]
    obtain st1 where
      m1: "merge_list_fastqs e [a] r1 st = (Inr r1, st1)"
      and b1: "disk st1 r1 = normalised_bytes e st a"
      and fr1: "\<forall>x. x \<noteq> r1 \<and> x \<noteq> ?n a \<longrightarrow> disk st1 x = disk st x"
      and d1: "dirs st1 = dirs st"
      by blast
    have br1: "b \<noteq> r1"
      using vb(2) n1 by auto
    have same: "disk st1 b = disk st b"
      using fr1 br1 nab by simp
    have nbe: "disk st1 (?n b) = disk st (?n b)"
      using fr1 sb(1) nanb by simp
    have stale: "file_exists st (?n b) \<longrightarrow> disk st1 (?n b) = disk st (?n b)"
      using nbe by simp
    have made: "file_exists st1 (?n b) \<longrightarrow> disk st1 (?n b) = normalised_bytes e st b"
      using nbe made0 [of b] by (simp add: file_exists_def)
    have fresh2: "\<not> file_exists st1 r2"
      using fr1 rne sa(2) n2 by (simp add: file_exists_def)
    have nd2': "\<not> is_dir st1 r2" and pr2': "dirname r2 = [] \<or> is_dir st1 (dirname r2)"
      using nd2 pr2 is_dir_cong [OF d1] by simp_all
    from merge_list_move_normalised [OF vb(3) same stale made vb(2) vb(1) fresh2 nd2' pr2']
    obtain st2 where
      m2: "merge_list_fastqs e [b] r2 st1 = (Inr r2, st2)"
      and b2: "disk st2 r2 = normalised_bytes e st b"
      and fr2: "\<forall>x. x \<noteq> r2 \<and> x \<noteq> ?n b \<longrightarrow> disk st2 x = disk st1 x"
      by blast
    have "disk st2 r1 = normalised_bytes e st a"
      using fr2 rne sb(1) b1 by simp
    then have c1: "disk st2 r1 = Some (concat (map (\<lambda>p. the (normalised_bytes e st p)) [a]))"
      using va(3) by auto
    have c2: "disk st2 r2 = Some (concat (map (\<lambda>p. the (normalised_bytes e st p)) [b]))"
      using b2 vb(3) by auto
    show ?thesis
      unfolding a b using m1 m2 c1 c2 by blast
  qed
qed


text \<open>
  Claim C6, as the code has it. For a non-empty sequence of FileSets with two members each,
  a call of \<open>merge\<close> that returns gives exactly the two paths made of the output template
  with \<open>_R1\<close> and \<open>_R2\<close> put before the extension. When the mates are read files on
  disk that normalisation can produce, neither output is on disk, no normalised path of a
  mate is an output path, and two different mates share a normalised path only when it is
  on disk already, the call returns and each output holds the concatenation, in the order of
  the sets, of the gzip-normalised files of its mates: the mate itself when it needs no
  compression, otherwise the \<open>.gz\<close> file beside it, taken as found when it is on disk and
  compressed from the mate when it is not. With a single FileSet the two normalised files
  are moved instead: the first must be neither the second mate nor its normalised file, and
  the outputs must be paths a file can be moved to (not directories, in a directory that
  exists).
\<close>

theorem C6_paired_merge_normalised:
  assumes ne: "fsets \<noteq> []"
    and two: "list_all (\<lambda>f. length f = 2) fsets"
    and r1: "r1 = fst (splitext_plus e out_file) @ ''_R1'' @ snd (splitext_plus e out_file)"
    and r2: "r2 = fst (splitext_plus e out_file) @ ''_R2'' @ snd (splitext_plus e out_file)"
  shows "(\<forall>r s. merge e fsets out_file st = (Inr r, s) \<longrightarrow> r = PathList [r1, r2]) \<and>
         (list_all (list_all (\<lambda>p. is_fastq e p \<and> file_exists st p \<and>
                                   normalised_bytes e st p \<noteq> None)) fsets \<and>
          \<not> file_exists st r1 \<and> \<not> file_exists st r2 \<and>
          (\<forall>p\<in>set (concat fsets). normalised_path e p \<noteq> r1 \<and> normalised_path e p \<noteq> r2) \<and>
          (\<forall>p\<in>set (concat fsets). \<forall>q\<in>set (concat fsets).
             normalised_path e p = normalised_path e q \<longrightarrow>
             p = q \<or> file_exists st (normalised_path e p)) \<and>
          (length fsets = 1 \<longrightarrow>
             normalised_path e (hd fsets ! 0) \<noteq> hd fsets ! 1 \<and>
             normalised_path e (hd fsets ! 0) \<noteq> normalised_path e (hd fsets ! 1) \<and>
             \<not> is_dir st r1 \<and> \<not> is_dir st r2 \<and>
             (dirname r1 = [] \<or> is_dir st (dirname r1)) \<and>
             (dirname r2 = [] \<or> is_dir st (dirname r2))) \<longrightarrow>
            (\<exists>st'. merge e fsets out_file st = (Inr (PathList [r1, r2]), st') \<and>
               disk st' r1 = Some (concat (map (\<lambda>f. the (normalised_bytes e st (f ! 0))) fsets)) \<and>
               disk st' r2 = Some (concat (map (\<lambda>f. the (normalised_bytes e st (f ! 1))) fsets))))"
proof -
  obtain first rest where fs: "fsets = first # rest"
    using ne by (cases fsets) auto
  have lf: "length first > 1" and lr: "list_all (\<lambda>f. 1 < length f) rest"
    using two fs by (auto simp: list_all_iff)
  note eq = merge_paired_mode [OF lf lr, of e out_file st, folded fs r1 r2]
  have paths: "\<forall>r s. merge e fsets out_file st = (Inr r, s) \<longrightarrow> r = PathList [r1, r2]"
    unfolding eq by (auto split: prod.splits sum.splits)
  have contents: "\<exists>st'. merge e fsets out_file st = (Inr (PathList [r1, r2]), st') \<and>
               disk st' r1 = Some (concat (map (\<lambda>f. the (normalised_bytes e st (f ! 0))) fsets)) \<and>
               disk st' r2 = Some (concat (map (\<lambda>f. the (normalised_bytes e st (f ! 1))) fsets))"
    if v: "list_all (list_all (\<lambda>p. is_fastq e p \<and> file_exists st p \<and>
                                   normalised_bytes e st p \<noteq> None)) fsets"
      and n1: "\<not> file_exists st r1" and n2: "\<not> file_exists st r2"
      and sep: "\<forall>p\<in>set (concat fsets). normalised_path e p \<noteq> r1 \<and> normalised_path e p \<noteq> r2"
      and inj: "\<forall>p\<in>set (concat fsets). \<forall>q\<in>set (concat fsets).
             normalised_path e p = normalised_path e q \<longrightarrow>
             p = q \<or> file_exists st (normalised_path e p)"
      and single: "length fsets = 1 \<longrightarrow>
             normalised_path e (hd fsets ! 0) \<noteq> hd fsets ! 1 \<and>
             normalised_path e (hd fsets ! 0) \<noteq> normalised_path e (hd fsets ! 1) \<and>
             \<not> is_dir st r1 \<and> \<not> is_dir st r2 \<and>
             (dirname r1 = [] \<or> is_dir st (dirname r1)) \<and>
             (dirname r2 = [] \<or> is_dir st (dirname r2))"
  proof -
    let ?ps1 = "map (\<lambda>f. f ! 0) fsets" and ?ps2 = "map (\<lambda>f. f ! 1) fsets"
    have mem: "set ?ps1 \<union> set ?ps2 \<subseteq> set (concat fsets)"
    proof
      fix p assume "p \<in> set ?ps1 \<union> set ?ps2"
      then obtain f where f: "f \<in> set fsets" "p = f ! 0 \<or> p = f ! 1"
        by auto
      with two have "length f = 2"
        by (auto simp: list_all_iff)
      with f(2) have "p \<in> set f"
        by auto
      with f(1) show "p \<in> set (concat fsets)"
        by auto
    qed
    have v': "\<forall>p\<in>set ?ps1 \<union> set ?ps2.
                is_fastq e p \<and> file_exists st p \<and> normalised_bytes e st p \<noteq> None"
      using v mem by (auto simp: list_all_iff)
    have inj': "\<forall>p\<in>set ?ps1 \<union> set ?ps2. \<forall>q\<in>set ?ps1 \<union> set ?ps2.
                normalised_path e p = normalised_path e q \<longrightarrow>
                p = q \<or> file_exists st (normalised_path e p)"
      using inj mem by blast
    have sep': "\<forall>p\<in>set ?ps1 \<union> set ?ps2.
                  normalised_path e p \<noteq> r1 \<and> normalised_path e p \<noteq> r2"
      using sep mem by blast
    have len: "length ?ps1 = length ?ps2" "?ps1 \<noteq> []"
      using ne by simp_all
    have rne: "r1 \<noteq> r2"
      unfolding r1 r2 by simp
    have single': "length ?ps1 = 1 \<longrightarrow>
                   normalised_path e (hd ?ps1) \<noteq> hd ?ps2 \<and>
                   normalised_path e (hd ?ps1) \<noteq> normalised_path e (hd ?ps2) \<and>
                   \<not> is_dir st r1 \<and> \<not> is_dir st r2 \<and>
                   (dirname r1 = [] \<or> is_dir st (dirname r1)) \<and>
                   (dirname r2 = [] \<or> is_dir st (dirname r2))"
      using single fs by simp
    obtain st1 st2 where m1: "merge_list_fastqs e ?ps1 r1 st = (Inr r1, st1)"
      and m2: "merge_list_fastqs e ?ps2 r2 st1 = (Inr r2, st2)"
      and d1: "disk st2 r1 = Some (concat (map (\<lambda>p. the (normalised_bytes e st p)) ?ps1))"
      and d2: "disk st2 r2 = Some (concat (map (\<lambda>p. the (normalised_bytes e st p)) ?ps2))"
      using merge_pair_normalised [OF v' inj' sep' len n1 n2 rne single'] by blast
    have "merge e fsets out_file st = (Inr (PathList [r1, r2]), st2)"
      unfolding eq using m1 m2 by simp
    moreover
    have "disk st2 r1 = Some (concat (map (\<lambda>f. the (normalised_bytes e st (f ! 0))) fsets))"
      using d1 by (simp add: comp_def)
    moreover
    have "disk st2 r2 = Some (concat (map (\<lambda>f. the (normalised_bytes e st (f ! 1))) fsets))"
      using d2 by (simp add: comp_def)
    ultimately show ?thesis
      by blast
  qed
  show ?thesis
    using paths contents by blast
qed

theorem C6_paired_merge_normalised_witness:
  "[[''a1.fq'', ''a2.fq.gz''], [''b1.fq.bz2'', ''b2.fq'']] \<noteq> [] \<and>
   list_all (\<lambda>f. length f = 2) [[''a1.fq'', ''a2.fq.gz''], [''b1.fq.bz2'', ''b2.fq'']] \<and>
   list_all (list_all (\<lambda>p. is_fastq demo_env p \<and>
       file_exists (demo_state [(''a1.fq'', ''A1''), (''a2.fq.gz'', ''A2''), (''b1.fq.bz2'', ''B1''),
                                (''b2.fq'', ''B2''), (''b2.fq.gz'', ''OLD'')]) p \<and>
       normalised_bytes demo_env
         (demo_state [(''a1.fq'', ''A1''), (''a2.fq.gz'', ''A2''), (''b1.fq.bz2'', ''B1''),
                      (''b2.fq'', ''B2''), (''b2.fq.gz'', ''OLD'')]) p \<noteq> None))
     [[''a1.fq'', ''a2.fq.gz''], [''b1.fq.bz2'', ''b2.fq'']] \<and>
   fst (merge demo_env [[''a1.fq'', ''a2.fq.gz''], [''b1.fq.bz2'', ''b2.fq'']] ''s.fq.gz''
          (demo_state [(''a1.fq'', ''A1''), (''a2.fq.gz'', ''A2''), (''b1.fq.bz2'', ''B1''),
                       (''b2.fq'', ''B2''), (''b2.fq.gz'', ''OLD'')]))
     = Inr (PathList [''s_R1.fq.gz'', ''s_R2.fq.gz'']) \<and>
   disk (snd (merge demo_env [[''a1.fq'', ''a2.fq.gz''], [''b1.fq.bz2'', ''b2.fq'']] ''s.fq.gz''
          (demo_state [(''a1.fq'', ''A1''), (''a2.fq.gz'', ''A2''), (''b1.fq.bz2'', ''B1''),
                       (''b2.fq'', ''B2''), (''b2.fq.gz'', ''OLD'')]))) ''s_R1.fq.gz''
     = Some ''gz(A1)gz(plain(B1))'' \<and>
   disk (snd (merge demo_env [[''a1.fq'', ''a2.fq.gz''], [''b1.fq.bz2'', ''b2.fq'']] ''s.fq.gz''
          (demo_state [(''a1.fq'', ''A1''), (''a2.fq.gz'', ''A2''), (''b1.fq.bz2'', ''B1''),
                       (''b2.fq'', ''B2''), (''b2.fq.gz'', ''OLD'')]))) ''s_R2.fq.gz''
     = Some ''A2OLD'' \<and>
   length [[''a.fq'', ''b.fq.gz'']] = 1 \<and>
   fst (merge demo_env [[''a.fq'', ''b.fq.gz'']] ''s.fq.gz''
          (demo_state [(''a.fq'', ''A''), (''b.fq.gz'', ''B'')]))
     = Inr (PathList [''s_R1.fq.gz'', ''s_R2.fq.gz'']) \<and>
   disk (snd (merge demo_env [[''a.fq'', ''b.fq.gz'']] ''s.fq.gz''
          (demo_state [(''a.fq'', ''A''), (''b.fq.gz'', ''B'')]))) ''s_R1.fq.gz'' = Some ''gz(A)'' \<and>
   disk (snd (merge demo_env [[''a.fq'', ''b.fq.gz'']] ''s.fq.gz''
          (demo_state [(''a.fq'', ''A''), (''b.fq.gz'', ''B'')]))) ''s_R2.fq.gz'' = Some ''B''"
proof -
  let ?F = "[[''a1.fq'', ''a2.fq.gz''], [''b1.fq.bz2'', ''b2.fq'']]"
  let ?st = "demo_state [(''a1.fq'', ''A1''), (''a2.fq.gz'', ''A2''), (''b1.fq.bz2'', ''B1''),
                         (''b2.fq'', ''B2''), (''b2.fq.gz'', ''OLD'')]"
  let ?G = "[[''a.fq'', ''b.fq.gz'']]"
  let ?su = "demo_state [(''a.fq'', ''A''), (''b.fq.gz'', ''B'')]"
  have sp: "splitext_plus demo_env ''s.fq.gz'' = (''s'', ''.fq.gz'')"
    by (simp add: demo_defs path_defs)
  have r1: "''s_R1.fq.gz'' = fst (splitext_plus demo_env ''s.fq.gz'') @ ''_R1''
              @ snd (splitext_plus demo_env ''s.fq.gz'')"
    and r2: "''s_R2.fq.gz'' = fst (splitext_plus demo_env ''s.fq.gz'') @ ''_R2''
              @ snd (splitext_plus demo_env ''s.fq.gz'')"
    unfolding sp by simp_all
  have fq: "is_fastq demo_env ''a1.fq''" "is_fastq demo_env ''a2.fq.gz''"
    "is_fastq demo_env ''b1.fq.bz2''" "is_fastq demo_env ''b2.fq''"
    "is_fastq demo_env ''a.fq''" "is_fastq demo_env ''b.fq.gz''"
    by (simp_all add: demo_defs path_defs)
  have np: "normalised_path demo_env ''a1.fq'' = ''a1.fq.gz''"
    "normalised_path demo_env ''a2.fq.gz'' = ''a2.fq.gz''"
    "normalised_path demo_env ''b1.fq.bz2'' = ''b1.fq.gz''"
    "normalised_path demo_env ''b2.fq'' = ''b2.fq.gz''"
    "normalised_path demo_env ''a.fq'' = ''a.fq.gz''"
    "normalised_path demo_env ''b.fq.gz'' = ''b.fq.gz''"
    by (simp_all add: normalised_path_def demo_defs path_defs)
  have ex: "file_exists ?st ''a1.fq''" "file_exists ?st ''a2.fq.gz''"
    "file_exists ?st ''b1.fq.bz2''" "file_exists ?st ''b2.fq''" "file_exists ?st ''b2.fq.gz''"
    "\<not> file_exists ?st ''s_R1.fq.gz''" "\<not> file_exists ?st ''s_R2.fq.gz''"
    by (simp_all add: demo_defs path_defs)
  have exu: "file_exists ?su ''a.fq''" "file_exists ?su ''b.fq.gz''"
    "\<not> file_exists ?su ''s_R1.fq.gz''" "\<not> file_exists ?su ''s_R2.fq.gz''"
    by (simp_all add: demo_defs path_defs)
  have nb: "normalised_bytes demo_env ?st ''a1.fq'' = Some ''gz(A1)''"
    "normalised_bytes demo_env ?st ''a2.fq.gz'' = Some ''A2''"
    "normalised_bytes demo_env ?st ''b1.fq.bz2'' = Some ''gz(plain(B1))''"
    "normalised_bytes demo_env ?st ''b2.fq'' = Some ''OLD''"
    unfolding normalised_bytes_def np by (simp_all add: demo_defs path_defs)
  have nbu: "normalised_bytes demo_env ?su ''a.fq'' = Some ''gz(A)''"
    "normalised_bytes demo_env ?su ''b.fq.gz'' = Some ''B''"
    unfolding normalised_bytes_def np by (simp_all add: demo_defs path_defs)
  have dir: "\<not> is_dir ?su ''s_R1.fq.gz''" "\<not> is_dir ?su ''s_R2.fq.gz''"
    "dirname ''s_R1.fq.gz'' = []" "dirname ''s_R2.fq.gz'' = []"
    by (simp_all add: demo_defs path_defs)
  have neF: "?F \<noteq> []" and twoF: "list_all (\<lambda>f. length f = 2) ?F"
    and neG: "?G \<noteq> []" and twoG: "list_all (\<lambda>f. length f = 2) ?G"
    by simp_all
  have vF: "list_all (list_all (\<lambda>p. is_fastq demo_env p \<and> file_exists ?st p \<and>
              normalised_bytes demo_env ?st p \<noteq> None)) ?F"
    using fq ex nb by simp
  have vG: "list_all (list_all (\<lambda>p. is_fastq demo_env p \<and> file_exists ?su p \<and>
              normalised_bytes demo_env ?su p \<noteq> None)) ?G"
    using fq exu nbu by simp
  have sepF: "\<forall>p\<in>set (concat ?F). normalised_path demo_env p \<noteq> ''s_R1.fq.gz'' \<and>
                normalised_path demo_env p \<noteq> ''s_R2.fq.gz''"
    by (simp add: np)
  have sepG: "\<forall>p\<in>set (concat ?G). normalised_path demo_env p \<noteq> ''s_R1.fq.gz'' \<and>
                normalised_path demo_env p \<noteq> ''s_R2.fq.gz''"
    by (simp add: np)
  have injF: "\<forall>p\<in>set (concat ?F). \<forall>q\<in>set (concat ?F).
                normalised_path demo_env p = normalised_path demo_env q \<longrightarrow>
                p = q \<or> file_exists ?st (normalised_path demo_env p)"
    by (simp add: np)
  have injG: "\<forall>p\<in>set (concat ?G). \<forall>q\<in>set (concat ?G).
                normalised_path demo_env p = normalised_path demo_env q \<longrightarrow>
                p = q \<or> file_exists ?su (normalised_path demo_env p)"
    by (simp add: np)
  have singleF: "length ?F = 1 \<longrightarrow>
             normalised_path demo_env (hd ?F ! 0) \<noteq> hd ?F ! 1 \<and>
             normalised_path demo_env (hd ?F ! 0) \<noteq> normalised_path demo_env (hd ?F ! 1) \<and>
             \<not> is_dir ?st ''s_R1.fq.gz'' \<and> \<not> is_dir ?st ''s_R2.fq.gz'' \<and>
             (dirname ''s_R1.fq.gz'' = [] \<or> is_dir ?st (dirname ''s_R1.fq.gz'')) \<and>
             (dirname ''s_R2.fq.gz'' = [] \<or> is_dir ?st (dirname ''s_R2.fq.gz''))"
    by simp
  have singleG: "length ?G = 1 \<longrightarrow>
             normalised_path demo_env (hd ?G ! 0) \<noteq> hd ?G ! 1 \<and>
             normalised_path demo_env (hd ?G ! 0) \<noteq> normalised_path demo_env (hd ?G ! 1) \<and>
             \<not> is_dir ?su ''s_R1.fq.gz'' \<and> \<not> is_dir ?su ''s_R2.fq.gz'' \<and>
             (dirname ''s_R1.fq.gz'' = [] \<or> is_dir ?su (dirname ''s_R1.fq.gz'')) \<and>
             (dirname ''s_R2.fq.gz'' = [] \<or> is_dir ?su (dirname ''s_R2.fq.gz''))"
    using dir by (simp add: np)
  obtain st' where m: "merge demo_env ?F ''s.fq.gz'' ?st
                         = (Inr (PathList [''s_R1.fq.gz'', ''s_R2.fq.gz'']), st')"
    and d1: "disk st' ''s_R1.fq.gz''
               = Some (concat (map (\<lambda>f. the (normalised_bytes demo_env ?st (f ! 0))) ?F))"
    and d2: "disk st' ''s_R2.fq.gz''
               = Some (concat (map (\<lambda>f. the (normalised_bytes demo_env ?st (f ! 1))) ?F))"
    using C6_paired_merge_normalised [OF neF twoF r1 r2, of ?st] vF ex(6,7) sepF injF singleF
    by blast
  obtain su' where mu: "merge demo_env ?G ''s.fq.gz'' ?su
                         = (Inr (PathList [''s_R1.fq.gz'', ''s_R2.fq.gz'']), su')"
    and u1: "disk su' ''s_R1.fq.gz''
               = Some (concat (map (\<lambda>f. the (normalised_bytes demo_env ?su (f ! 0))) ?G))"
    and u2: "disk su' ''s_R2.fq.gz''
               = Some (concat (map (\<lambda>f. the (normalised_bytes demo_env ?su (f ! 1))) ?G))"
    using C6_paired_merge_normalised [OF neG twoG r1 r2, of ?su] vG exu(3,4) sepG injG singleG
    by blast
  have e1: "disk st' ''s_R1.fq.gz'' = Some ''gz(A1)gz(plain(B1))''"
    using d1 nb by simp
  have e2: "disk st' ''s_R2.fq.gz'' = Some ''A2OLD''"
    using d2 nb by simp
  have f1: "disk su' ''s_R1.fq.gz'' = Some ''gz(A)''"
    using u1 nbu by simp
  have f2: "disk su' ''s_R2.fq.gz'' = Some ''B''"
    using u2 nbu by simp
  show ?thesis
    using neF twoF vF e1 e2 f1 f2 unfolding m mu by (intro conjI) simp_all
qed

text \<open>
  The claim as written fails for mates that are not gzip-compressed: each output is the
  sequence of the gzip streams of its mates, not of the mates' own bytes.
\<close>

theorem C6_plain_mates_counterexample:
  "disk (demo_state [(''a1.fq'', ''A1''), (''a2.fq'', ''A2''), (''b1.fq'', ''B1''), (''b2.fq'', ''B2'')])
     ''a1.fq'' = Some ''A1'' \<and>
   disk (demo_state [(''a1.fq'', ''A1''), (''a2.fq'', ''A2''), (''b1.fq'', ''B1''), (''b2.fq'', ''B2'')])
     ''b1.fq'' = Some ''B1'' \<and>
   fst (merge demo_env [[''a1.fq'', ''a2.fq''], [''b1.fq'', ''b2.fq'']] ''s.fq.gz''
          (demo_state [(''a1.fq'', ''A1''), (''a2.fq'', ''A2''), (''b1.fq'', ''B1''), (''b2.fq'', ''B2'')]))
     = Inr (PathList [''s_R1.fq.gz'', ''s_R2.fq.gz'']) \<and>
   disk (snd (merge demo_env [[''a1.fq'', ''a2.fq''], [''b1.fq'', ''b2.fq'']] ''s.fq.gz''
          (demo_state [(''a1.fq'', ''A1''), (''a2.fq'', ''A2''), (''b1.fq'', ''B1''), (''b2.fq'', ''B2'')])))
       ''s_R1.fq.gz'' = Some ''gz(A1)gz(B1)'' \<and>
   disk (snd (merge demo_env [[''a1.fq'', ''a2.fq''], [''b1.fq'', ''b2.fq'']] ''s.fq.gz''
          (demo_state [(''a1.fq'', ''A1''), (''a2.fq'', ''A2''), (''b1.fq'', ''B1''), (''b2.fq'', ''B2'')])))
       ''s_R1.fq.gz'' \<noteq> Some (''A1'' @ ''B1'')"
  by (simp add: merge_def merge_list_fastqs_def index_def gzip_fastq_def run_tx_def
      demo_defs path_defs Let_def)

end
